theory Spec2Isabelle
  imports Complex_Main
begin

section \<open>Values of the Python program\<close>

text \<open>
  The module \<^verbatim>\<open>sustainable_procurement/api.py\<close> works on what \<^verbatim>\<open>json.loads\<close>
  returns: \<^verbatim>\<open>None\<close>, booleans, unbounded integers, floats, strings, lists and
  dictionaries with string keys.

  A Python float is modelled by the real number it denotes, or by one of the three
  special values \<^verbatim>\<open>inf\<close>, \<^verbatim>\<open>-inf\<close> and \<^verbatim>\<open>nan\<close> (which \<^verbatim>\<open>json.loads\<close> does
  produce, from \<^verbatim>\<open>Infinity\<close>, \<^verbatim>\<open>1e999\<close>, \<^verbatim>\<open>NaN\<close>). Arithmetic on the finite values is
  exact real arithmetic: the rounding of IEEE doubles is not modelled, and neither is the
  sign of zero.
\<close>

datatype pyfloat = Finite real | PosInf | NegInf | NaN

text \<open>
  A dictionary is the list of its items in insertion order, so its keys are distinct;
  \<^verbatim>\<open>d.get(k)\<close> is \<^const>\<open>map_of\<close>.
\<close>

datatype json =
    JNull
  | JBool bool
  | JInt int
  | JFloat pyfloat
  | JStr string
  | JList "json list"
  | JDict "(string \<times> json) list"

text \<open>
  The exceptions the module can meet; all of them are subclasses of \<^verbatim>\<open>Exception\<close>
  (\<^verbatim>\<open>json.JSONDecodeError\<close> is a \<^verbatim>\<open>ValueError\<close> of its own kind). \<open>ValueError\<close>
  carries its message. \<open>RecursionError\<close> is what \<^verbatim>\<open>json.loads\<close> raises on a text nested
  too deeply. \<open>UpstreamError\<close> stands for whatever exception a call to the
  \<^verbatim>\<open>frappe\<close> data-access layer raises.
\<close>

datatype error =
    JSONDecodeError
  | AttributeError
  | TypeError
  | ValueError string
  | OverflowError
  | RecursionError
  | UpstreamError string

text \<open>The values for which \<^verbatim>\<open>isinstance(x, (int, float))\<close> holds. In Python \<^verbatim>\<open>bool\<close> is a
  subclass of \<^verbatim>\<open>int\<close>, so \<^verbatim>\<open>True\<close> and \<^verbatim>\<open>False\<close> pass that test.\<close>

datatype pynum = PyInt int | PyFloat pyfloat | PyBool bool

type_synonym point = "pynum \<times> pynum"

fun as_number :: "json \<Rightarrow> pynum option" where
  "as_number (JInt i) = Some (PyInt i)"
| "as_number (JFloat f) = Some (PyFloat f)"
| "as_number (JBool b) = Some (PyBool b)"
| "as_number _ = None"

text \<open>Python truthiness, as used by \<^verbatim>\<open>not x\<close> and \<^verbatim>\<open>x and y\<close>.\<close>

fun truthy :: "json \<Rightarrow> bool" where
  "truthy JNull = False"
| "truthy (JBool b) = b"
| "truthy (JInt i) = (i \<noteq> 0)"
| "truthy (JFloat f) = (f \<noteq> Finite 0)"
| "truthy (JStr s) = (s \<noteq> [])"
| "truthy (JList xs) = (xs \<noteq> [])"
| "truthy (JDict kvs) = (kvs \<noteq> [])"

text \<open>\<^verbatim>\<open>x.get(key)\<close>: only a dictionary has the method; a missing key gives \<^verbatim>\<open>None\<close>.\<close>

fun dict_get :: "json \<Rightarrow> string \<Rightarrow> error + json" where
  "dict_get (JDict kvs) k = Inr (case map_of kvs k of None \<Rightarrow> JNull | Some v \<Rightarrow> v)"
| "dict_get _ k = Inl AttributeError"

text \<open>\<^verbatim>\<open>for x in v\<close>: a list gives its elements, a dictionary its keys, a string its
  characters as one-character strings; nothing else that \<^verbatim>\<open>json.loads\<close> returns is
  iterable.\<close>

fun iter_json :: "json \<Rightarrow> error + json list" where
  "iter_json (JList xs) = Inr xs"
| "iter_json (JDict kvs) = Inr (map (\<lambda>kv. JStr (fst kv)) kvs)"
| "iter_json (JStr s) = Inr (map (\<lambda>c. JStr [c]) s)"
| "iter_json _ = Inl TypeError"

section \<open>\<^verbatim>\<open>get_coordinates_from_geojson\<close>\<close>

text \<open>
  Lines 22-23, the loop
  \<^verbatim>\<open>while isinstance(coords, list) and len(coords) > 0 and isinstance(coords[0], list):
      coords = coords[0]\<close>
\<close>

fun unwrap_coords :: "json \<Rightarrow> json" where
  "unwrap_coords (JList (JList ys # xs)) = unwrap_coords (JList ys)"
| "unwrap_coords c = c"

text \<open>Lines 25-28: the test on the unwrapped value; \<open>None\<close> means that the feature is
  passed over.\<close>

fun coords_point :: "json \<Rightarrow> point option" where
  "coords_point (JList (lon # lat # rest)) =
     (case as_number lon of
        None \<Rightarrow> None
      | Some a \<Rightarrow> (case as_number lat of None \<Rightarrow> None | Some b \<Rightarrow> Some (a, b)))"
| "coords_point _ = None"

text \<open>Lines 19-28, the body of the loop over the features. \<open>Inr None\<close>: the loop goes on
  to the next feature; \<open>Inr (Some p)\<close>: the function returns \<open>p\<close>; \<open>Inl e\<close>: \<open>e\<close> is
  raised.\<close>

definition feature_point :: "json \<Rightarrow> error + point option" where
  "feature_point feature =
     (case dict_get feature ''geometry'' of
        Inl e \<Rightarrow> Inl e
      | Inr geometry \<Rightarrow>
          if \<not> truthy geometry then Inr None
          else (case dict_get geometry ''type'' of
              Inl e \<Rightarrow> Inl e
            | Inr ty \<Rightarrow>
                if ty \<noteq> JStr ''Point'' then Inr None
                else (case dict_get geometry ''coordinates'' of
                    Inl e \<Rightarrow> Inl e
                  | Inr coords \<Rightarrow> Inr (coords_point (unwrap_coords coords)))))"

fun scan_features :: "json list \<Rightarrow> error + point option" where
  "scan_features [] = Inr None"
| "scan_features (feature # rest) =
     (case feature_point feature of
        Inl e \<Rightarrow> Inl e
      | Inr (Some p) \<Rightarrow> Inr (Some p)
      | Inr None \<Rightarrow> scan_features rest)"

text \<open>
  The function itself. \<^verbatim>\<open>json.loads\<close> belongs to the Python library, not to this
  module: it is the parameter \<open>loads\<close>, which gives the decoded value or the exception
  raised (\<^verbatim>\<open>JSONDecodeError\<close> on a malformed text; on some texts \<^verbatim>\<open>RecursionError\<close>
  or a plain \<^verbatim>\<open>ValueError\<close>). The function does not catch it. The argument is a string
  or \<^verbatim>\<open>None\<close>.
\<close>

definition get_coordinates_from_geojson ::
  "(string \<Rightarrow> error + json) \<Rightarrow> string option \<Rightarrow> error + point option" where
  "get_coordinates_from_geojson loads geojson_str =
     (case geojson_str of
        None \<Rightarrow> Inr None
      | Some s \<Rightarrow>
          if s = [] then Inr None
          else (case loads s of
              Inl e \<Rightarrow> Inl e
            | Inr data \<Rightarrow>
                (case dict_get data ''features'' of
                   Inl e \<Rightarrow> Inl e
                 | Inr features \<Rightarrow>
                     if \<not> truthy features then Inr None
                     else (case iter_json features of
                         Inl e \<Rightarrow> Inl e
                       | Inr items \<Rightarrow> scan_features items))))"

section \<open>\<^verbatim>\<open>haversine_distance\<close>\<close>

text \<open>Sequencing of computations that may raise: the first exception ends the
  computation.\<close>

definition ebind :: "error + 'a \<Rightarrow> ('a \<Rightarrow> error + 'b) \<Rightarrow> error + 'b" where
  "ebind m f = (case m of Inl e \<Rightarrow> Inl e | Inr v \<Rightarrow> f v)"

text \<open>
  \<^verbatim>\<open>float(x)\<close> of an integer raises \<^verbatim>\<open>OverflowError\<close> when the integer, rounded to
  the nearest double, does not fit: from \<open>2^1024 - 2^970\<close> on in absolute value.
\<close>

definition float_overflow_bound :: int where
  "float_overflow_bound = 2 ^ 1024 - 2 ^ 970"

fun py_float :: "pynum \<Rightarrow> error + pyfloat" where
  "py_float (PyInt n) =
     (if \<bar>n\<bar> < float_overflow_bound then Inr (Finite (real_of_int n)) else Inl OverflowError)"
| "py_float (PyFloat f) = Inr f"
| "py_float (PyBool b) = Inr (Finite (if b then 1 else 0))"

text \<open>\<^verbatim>\<open>math.radians\<close> never raises on a float.\<close>

fun radians :: "pyfloat \<Rightarrow> pyfloat" where
  "radians (Finite r) = Finite (r * pi / 180)"
| "radians f = f"

fun fsub :: "pyfloat \<Rightarrow> pyfloat \<Rightarrow> pyfloat" where
  "fsub NaN y = NaN"
| "fsub x NaN = NaN"
| "fsub (Finite a) (Finite b) = Finite (a - b)"
| "fsub (Finite a) PosInf = NegInf"
| "fsub (Finite a) NegInf = PosInf"
| "fsub PosInf PosInf = NaN"
| "fsub PosInf y = PosInf"
| "fsub NegInf NegInf = NaN"
| "fsub NegInf y = NegInf"

fun fadd :: "pyfloat \<Rightarrow> pyfloat \<Rightarrow> pyfloat" where
  "fadd NaN y = NaN"
| "fadd x NaN = NaN"
| "fadd (Finite a) (Finite b) = Finite (a + b)"
| "fadd (Finite a) y = y"
| "fadd PosInf NegInf = NaN"
| "fadd PosInf y = PosInf"
| "fadd NegInf PosInf = NaN"
| "fadd NegInf y = NegInf"

fun inf_of_sign :: "real \<Rightarrow> pyfloat" where
  "inf_of_sign s = (if s = 0 then NaN else if 0 < s then PosInf else NegInf)"

fun fmul :: "pyfloat \<Rightarrow> pyfloat \<Rightarrow> pyfloat" where
  "fmul NaN y = NaN"
| "fmul x NaN = NaN"
| "fmul (Finite a) (Finite b) = Finite (a * b)"
| "fmul (Finite a) PosInf = inf_of_sign a"
| "fmul (Finite a) NegInf = inf_of_sign (- a)"
| "fmul PosInf (Finite b) = inf_of_sign b"
| "fmul NegInf (Finite b) = inf_of_sign (- b)"
| "fmul PosInf PosInf = PosInf"
| "fmul PosInf NegInf = NegInf"
| "fmul NegInf PosInf = NegInf"
| "fmul NegInf NegInf = PosInf"

text \<open>\<^verbatim>\<open>x / 2\<close> and \<^verbatim>\<open>x ** 2\<close> on a float.\<close>

fun fhalf :: "pyfloat \<Rightarrow> pyfloat" where
  "fhalf (Finite r) = Finite (r / 2)"
| "fhalf f = f"

fun fsquare :: "pyfloat \<Rightarrow> pyfloat" where
  "fsquare (Finite r) = Finite (r ^ 2)"
| "fsquare NaN = NaN"
| "fsquare f = PosInf"

text \<open>
  The functions of \<^verbatim>\<open>math\<close>: \<^verbatim>\<open>nan\<close> goes through, and an argument outside the domain
  raises \<^verbatim>\<open>ValueError("math domain error")\<close>; so do \<^verbatim>\<open>sin\<close> and \<^verbatim>\<open>cos\<close> of an
  infinity.
\<close>

definition math_domain_error :: error where
  "math_domain_error = ValueError ''math domain error''"

fun py_sin :: "pyfloat \<Rightarrow> error + pyfloat" where
  "py_sin (Finite r) = Inr (Finite (sin r))"
| "py_sin NaN = Inr NaN"
| "py_sin f = Inl math_domain_error"

fun py_cos :: "pyfloat \<Rightarrow> error + pyfloat" where
  "py_cos (Finite r) = Inr (Finite (cos r))"
| "py_cos NaN = Inr NaN"
| "py_cos f = Inl math_domain_error"

fun py_sqrt :: "pyfloat \<Rightarrow> error + pyfloat" where
  "py_sqrt (Finite r) = (if r < 0 then Inl math_domain_error else Inr (Finite (sqrt r)))"
| "py_sqrt NaN = Inr NaN"
| "py_sqrt PosInf = Inr PosInf"
| "py_sqrt NegInf = Inl math_domain_error"

fun py_asin :: "pyfloat \<Rightarrow> error + pyfloat" where
  "py_asin (Finite r) =
     (if - 1 \<le> r \<and> r \<le> 1 then Inr (Finite (arcsin r)) else Inl math_domain_error)"
| "py_asin NaN = Inr NaN"
| "py_asin f = Inl math_domain_error"

text \<open>The comparison \<^verbatim>\<open>x < y\<close> of two floats: false as soon as one of them is
  \<^verbatim>\<open>nan\<close>.\<close>

fun flt :: "pyfloat \<Rightarrow> pyfloat \<Rightarrow> bool" where
  "flt NaN y = False"
| "flt x NaN = False"
| "flt (Finite a) (Finite b) = (a < b)"
| "flt (Finite a) PosInf = True"
| "flt (Finite a) NegInf = False"
| "flt PosInf y = False"
| "flt NegInf NegInf = False"
| "flt NegInf y = True"

text \<open>
  Lines 97-105, in two parts. First the four conversions \<^verbatim>\<open>float(...)\<close>, evaluated in
  the order of the list on line 97; then, in \<open>haversine_formula\<close>, the conversion to
  radians and the formula, evaluated from left to right.
\<close>

definition haversine_formula ::
  "pyfloat \<Rightarrow> pyfloat \<Rightarrow> pyfloat \<Rightarrow> pyfloat \<Rightarrow> error + pyfloat" where
  "haversine_formula f1 f2 f3 f4 =
     (let lon1 = radians f1; lat1 = radians f2;
          lon2 = radians f3; lat2 = radians f4;
          dlon = fsub lon2 lon1;
          dlat = fsub lat2 lat1
      in
      ebind (py_sin (fhalf dlat)) (\<lambda>s1.
      ebind (py_cos lat1) (\<lambda>c1.
      ebind (py_cos lat2) (\<lambda>c2.
      ebind (py_sin (fhalf dlon)) (\<lambda>s2.
        let a = fadd (fsquare s1) (fmul (fmul c1 c2) (fsquare s2)) in
        ebind (py_sqrt a) (\<lambda>q.
        ebind (py_asin q) (\<lambda>t.
          let c = fmul (Finite 2) t;
              r = Finite 6371
          in Inr (fmul c r))))))))"

definition haversine_distance ::
  "pynum \<Rightarrow> pynum \<Rightarrow> pynum \<Rightarrow> pynum \<Rightarrow> error + pyfloat" where
  "haversine_distance lon1 lat1 lon2 lat2 =
     ebind (py_float lon1) (\<lambda>f1.
     ebind (py_float lat1) (\<lambda>f2.
     ebind (py_float lon2) (\<lambda>f3.
     ebind (py_float lat2) (\<lambda>f4.
       haversine_formula f1 f2 f3 f4))))"

section \<open>\<^verbatim>\<open>get_nearest_supplier\<close>\<close>

text \<open>
  A row of \<^verbatim>\<open>frappe.get_all("Supplier", filters={"disabled": 0},
  fields=["name", "custom_geolocation"])\<close>.
\<close>

record supplier =
  name :: string
  custom_geolocation :: "string option"

text \<open>The dictionary \<^verbatim>\<open>{"name": supplier.name, "distance": distance}\<close>.\<close>

datatype nearest = NearestInfo string pyfloat

text \<open>
  What the function does to the outside, in the order in which it happens: the calls
  \<^verbatim>\<open>frappe.db.get_value("Warehouse", warehouse, "custom_geolocation")\<close>,
  \<^verbatim>\<open>frappe.get_all("Supplier", ...)\<close>, and \<^verbatim>\<open>frappe.log_error(message, title)\<close>, of which
  the title, the name in the message and the exception in the message are kept.
\<close>

datatype event =
    GetValue string
  | GetAll
  | LogError string string error

text \<open>
  The collaborators: \<^verbatim>\<open>json.loads\<close>, and the two calls to the data-access layer with
  their outcome (a value, or the exception raised). \<^verbatim>\<open>frappe.log_error\<close> returns
  normally.
\<close>

record env =
  json_loads :: "string \<Rightarrow> error + json"
  db_get_value :: "string \<Rightarrow> error + string option"
  get_all :: "error + supplier list"

text \<open>The two variables of the loop, \<^verbatim>\<open>nearest_supplier_info\<close> and \<^verbatim>\<open>min_distance\<close>.\<close>

record loop_state =
  nearest_supplier_info :: "nearest option"
  min_distance :: pyfloat

definition initial_state :: loop_state where
  "initial_state = \<lparr>nearest_supplier_info = None, min_distance = PosInf\<rparr>"

text \<open>Lines 43-47, the body of the first \<^verbatim>\<open>try\<close>.\<close>

definition no_point_error :: error where
  "no_point_error =
     ValueError ''Could not extract valid point coordinates from warehouse location.''"

definition warehouse_coords :: "env \<Rightarrow> string \<Rightarrow> error + point" where
  "warehouse_coords E warehouse =
     ebind (db_get_value E warehouse) (\<lambda>warehouse_location_str.
     ebind (get_coordinates_from_geojson (json_loads E) warehouse_location_str) (\<lambda>coords.
       case coords of
         None \<Rightarrow> Inl no_point_error
       | Some p \<Rightarrow> Inr p))"

text \<open>Lines 66-83, the body of the \<^verbatim>\<open>try\<close> inside the loop. The two variables are
  assigned at its very end, so an exception leaves them as they were.\<close>

definition supplier_body ::
  "(string \<Rightarrow> error + json) \<Rightarrow> point \<Rightarrow> supplier \<Rightarrow> loop_state \<Rightarrow> error + loop_state" where
  "supplier_body loads wp s st =
     ebind (get_coordinates_from_geojson loads (custom_geolocation s)) (\<lambda>supplier_coords.
       case supplier_coords of
         None \<Rightarrow> Inr st
       | Some (lon2, lat2) \<Rightarrow>
           ebind (haversine_distance (fst wp) (snd wp) lon2 lat2) (\<lambda>distance.
             if flt distance (min_distance st)
             then Inr \<lparr>nearest_supplier_info = Some (NearestInfo (name s) distance),
                       min_distance = distance\<rparr>
             else Inr st))"

definition supplier_error_title :: string where
  "supplier_error_title = ''Supplier Location Parse Error''"

definition warehouse_error_title :: string where
  "warehouse_error_title = ''Warehouse Location Parse Error''"

text \<open>Lines 64-86, the loop, with the events logged so far.\<close>

fun scan_suppliers ::
  "(string \<Rightarrow> error + json) \<Rightarrow> point \<Rightarrow> supplier list \<Rightarrow> event list \<times> loop_state
     \<Rightarrow> event list \<times> loop_state" where
  "scan_suppliers loads wp [] acc = acc"
| "scan_suppliers loads wp (s # rest) (evs, st) =
     (case supplier_body loads wp s st of
        Inl e \<Rightarrow>
          scan_suppliers loads wp rest (evs @ [LogError supplier_error_title (name s) e], st)
      | Inr st' \<Rightarrow> scan_suppliers loads wp rest (evs, st'))"

text \<open>
  The function: the events, and either the exception that reaches the caller or the value
  returned (\<open>None\<close> for \<^verbatim>\<open>None\<close>). The argument is a string or \<^verbatim>\<open>None\<close>.
\<close>

definition get_nearest_supplier ::
  "env \<Rightarrow> string option \<Rightarrow> event list \<times> (error + nearest option)" where
  "get_nearest_supplier E warehouse =
     (case warehouse of
        None \<Rightarrow> ([], Inr None)
      | Some w \<Rightarrow>
          if w = [] then ([], Inr None)
          else (case warehouse_coords E w of
              Inl e \<Rightarrow> ([GetValue w, LogError warehouse_error_title w e], Inr None)
            | Inr wp \<Rightarrow>
                (case get_all E of
                   Inl e \<Rightarrow> ([GetValue w, GetAll], Inl e)
                 | Inr enabled_suppliers \<Rightarrow>
                     (let (evs, st) =
                        scan_suppliers (json_loads E) wp enabled_suppliers
                          ([GetValue w, GetAll], initial_state)
                      in (evs, Inr (nearest_supplier_info st))))))"

section \<open>The properties, in the words of the specification\<close>

subsection \<open>The point of a feature\<close>

text \<open>A field of a mapping; a value that is not a mapping has no fields.\<close>

fun field :: "string \<Rightarrow> json \<Rightarrow> json option" where
  "field k (JDict kvs) = map_of kvs k"
| "field k _ = None"

text \<open>Numeric, for the specification: an integer or a floating point number.\<close>

fun is_numeric :: "json \<Rightarrow> bool" where
  "is_numeric (JInt i) = True"
| "is_numeric (JFloat f) = True"
| "is_numeric _ = False"

fun is_bool :: "json \<Rightarrow> bool" where
  "is_bool (JBool b) = True"
| "is_bool _ = False"

fun is_dict :: "json \<Rightarrow> bool" where
  "is_dict (JDict kvs) = True"
| "is_dict _ = False"

text \<open>One step of the normalisation: a non-empty list whose first element is itself a
  list is replaced by that first element.\<close>

fun unwrap_step :: "json \<Rightarrow> json option" where
  "unwrap_step (JList (JList ys # xs)) = Some (JList ys)"
| "unwrap_step c = None"

text \<open>
  The test of the specification on one feature: its geometry type equals \<open>"Point"\<close>, and
  its coordinates, once unwrapped, are a sequence of length at least 2 whose first two
  elements are numeric. The result is the point the feature yields, if it passes.
\<close>

definition spec_point :: "json \<Rightarrow> point option" where
  "spec_point feature =
     (case field ''geometry'' feature of
        None \<Rightarrow> None
      | Some geometry \<Rightarrow>
          if field ''type'' geometry = Some (JStr ''Point'') then
            (case field ''coordinates'' geometry of
               None \<Rightarrow> None
             | Some coords \<Rightarrow>
                 (case unwrap_coords coords of
                    JList xs \<Rightarrow>
                      if 2 \<le> length xs \<and> is_numeric (xs ! 0) \<and> is_numeric (xs ! 1)
                      then Some (the (as_number (xs ! 0)), the (as_number (xs ! 1)))
                      else None
                  | _ \<Rightarrow> None))
          else None)"

text \<open>The point of the first feature, in order, that passes the test.\<close>

definition first_point :: "json list \<Rightarrow> point option" where
  "first_point fs = (case List.map_filter spec_point fs of [] \<Rightarrow> None | p # ps \<Rightarrow> Some p)"

text \<open>
  A feature as the data model describes it: a mapping, whose \<open>"geometry"\<close> is missing,
  falsy, or a mapping.
\<close>

definition wellformed_feature :: "json \<Rightarrow> bool" where
  "wellformed_feature feature =
     (case feature of
        JDict kvs \<Rightarrow>
          (case map_of kvs ''geometry'' of
             None \<Rightarrow> True
           | Some geometry \<Rightarrow> \<not> truthy geometry \<or> is_dict geometry)
      | _ \<Rightarrow> False)"

text \<open>
  A feature with a boolean coordinate: its geometry has the type \<open>"Point"\<close> and one of the
  first two elements of its unwrapped coordinates is a JSON boolean. On such features the
  properties below say nothing.
\<close>

definition boolean_coordinates :: "json \<Rightarrow> bool" where
  "boolean_coordinates feature =
     (case field ''geometry'' feature of
        None \<Rightarrow> False
      | Some geometry \<Rightarrow>
          field ''type'' geometry = Some (JStr ''Point'') \<and>
          (case field ''coordinates'' geometry of
             None \<Rightarrow> False
           | Some coords \<Rightarrow>
               (case unwrap_coords coords of
                  JList xs \<Rightarrow> 2 \<le> length xs \<and> (is_bool (xs ! 0) \<or> is_bool (xs ! 1))
                | _ \<Rightarrow> False)))"

definition plain_feature :: "json \<Rightarrow> bool" where
  "plain_feature feature = (wellformed_feature feature \<and> \<not> boolean_coordinates feature)"

text \<open>The features that come before the first one passing the test:\<close>

definition leading_failures :: "json list \<Rightarrow> json list" where
  "leading_failures fs = takeWhile (\<lambda>f. spec_point f = None) fs"

text \<open>A decoded value as the data model describes it: a mapping whose \<open>"features"\<close> is
  missing, falsy, or a list of well-formed features without boolean coordinates.\<close>

definition conforming :: "json \<Rightarrow> bool" where
  "conforming data =
     (case data of
        JDict kvs \<Rightarrow>
          (case map_of kvs ''features'' of
             None \<Rightarrow> True
           | Some (JList fs) \<Rightarrow> list_all plain_feature fs
           | Some v \<Rightarrow> \<not> truthy v)
      | _ \<Rightarrow> False)"

text \<open>
  When the specification has the extractor return absent: the input is empty or absent,
  or the parsed data has no \<open>"features"\<close> key or a falsy one, or no feature yields a
  valid point. When it has the extractor raise a parse error: the input is not empty and
  is not valid structured data, that is, \<^verbatim>\<open>json.loads\<close> raises \<^verbatim>\<open>JSONDecodeError\<close> on it.
\<close>

definition features_of :: "json \<Rightarrow> json list" where
  "features_of data = (case field ''features'' data of Some (JList fs) \<Rightarrow> fs | _ \<Rightarrow> [])"

definition spec_absent :: "(string \<Rightarrow> error + json) \<Rightarrow> string option \<Rightarrow> bool" where
  "spec_absent loads raw =
     (case raw of
        None \<Rightarrow> True
      | Some s \<Rightarrow>
          s = [] \<or>
          (case loads s of
             Inl e \<Rightarrow> False
           | Inr data \<Rightarrow>
               (case field ''features'' data of
                  None \<Rightarrow> True
                | Some v \<Rightarrow> \<not> truthy v \<or> first_point (features_of data) = None)))"

definition spec_parse_error :: "(string \<Rightarrow> error + json) \<Rightarrow> string option \<Rightarrow> bool" where
  "spec_parse_error loads raw =
     (case raw of None \<Rightarrow> False | Some s \<Rightarrow> s \<noteq> [] \<and> loads s = Inl JSONDecodeError)"

text \<open>The exception that \<^verbatim>\<open>json.loads\<close> raises on the input, when the input is not
  empty.\<close>

definition loads_raises :: "(string \<Rightarrow> error + json) \<Rightarrow> string option \<Rightarrow> error \<Rightarrow> bool" where
  "loads_raises loads raw e =
     (case raw of None \<Rightarrow> False | Some s \<Rightarrow> s \<noteq> [] \<and> loads s = Inl e)"

definition decodes_conforming :: "(string \<Rightarrow> error + json) \<Rightarrow> string option \<Rightarrow> bool" where
  "decodes_conforming loads raw =
     (case raw of
        None \<Rightarrow> True
      | Some s \<Rightarrow> (case loads s of Inl e \<Rightarrow> True | Inr data \<Rightarrow> conforming data))"

subsection \<open>The nearest supplier\<close>

text \<open>
  The distance computed for a supplier: its location yields a point and the distance from
  the warehouse point to it is a number. The candidates are the suppliers that have one,
  in the order of the list, each with its distance.
\<close>

definition computed_distance ::
  "(string \<Rightarrow> error + json) \<Rightarrow> point \<Rightarrow> supplier \<Rightarrow> real option" where
  "computed_distance loads wp s =
     (case get_coordinates_from_geojson loads (custom_geolocation s) of
        Inr (Some (lon2, lat2)) \<Rightarrow>
          (case haversine_distance (fst wp) (snd wp) lon2 lat2 of
             Inr (Finite d) \<Rightarrow> Some d
           | _ \<Rightarrow> None)
      | _ \<Rightarrow> None)"

definition candidates ::
  "(string \<Rightarrow> error + json) \<Rightarrow> point \<Rightarrow> supplier list \<Rightarrow> (string \<times> real) list" where
  "candidates loads wp ss =
     List.map_filter (\<lambda>s. map_option (\<lambda>d. (name s, d)) (computed_distance loads wp s)) ss"

text \<open>
  \<open>r\<close> is the first candidate at the minimum distance: every candidate before it in the
  list is strictly farther, and no candidate after it is nearer. With no candidate, \<open>r\<close>
  is absent.
\<close>

definition is_first_nearest :: "(string \<times> real) list \<Rightarrow> nearest option \<Rightarrow> bool" where
  "is_first_nearest cs r =
     (case r of
        None \<Rightarrow> cs = []
      | Some (NearestInfo n d) \<Rightarrow>
          (\<exists>before m after.
             cs = before @ (n, m) # after \<and> d = Finite m
             \<and> (\<forall>c\<in>set before. m < snd c)
             \<and> (\<forall>c\<in>set after. m \<le> snd c)))"

text \<open>A supplier's location yields a valid point.\<close>

definition yields_point :: "(string \<Rightarrow> error + json) \<Rightarrow> supplier \<Rightarrow> bool" where
  "yields_point loads s =
     (case get_coordinates_from_geojson loads (custom_geolocation s) of
        Inr (Some p) \<Rightarrow> True
      | _ \<Rightarrow> False)"

text \<open>
  The invariant of the loop: after the suppliers whose candidates are \<open>cs\<close>, the two
  variables hold the first candidate at the minimum distance of \<open>cs\<close>, or their initial
  values when \<open>cs\<close> is empty.
\<close>

definition tracks :: "(string \<times> real) list \<Rightarrow> loop_state \<Rightarrow> bool" where
  "tracks cs st =
     ((cs = [] \<and> st = initial_state)
      \<or> (\<exists>before n m after.
            cs = before @ (n, m) # after
            \<and> st = \<lparr>nearest_supplier_info = Some (NearestInfo n (Finite m)),
                     min_distance = Finite m\<rparr>
            \<and> (\<forall>c\<in>set before. m < snd c)
            \<and> (\<forall>c\<in>set after. m \<le> snd c)))"

subsection \<open>The numbers \<^verbatim>\<open>float\<close> converts to a finite float\<close>

fun finite_input :: "pynum \<Rightarrow> bool" where
  "finite_input (PyInt n) = (\<bar>n\<bar> < float_overflow_bound)"
| "finite_input (PyFloat (Finite r)) = True"
| "finite_input (PyFloat f) = False"
| "finite_input (PyBool b) = True"


section \<open>Sample data\<close>

text \<open>
  Some location texts, with the value \<^verbatim>\<open>json.loads\<close> returns for each; \<open>sample_loads\<close>
  is \<^verbatim>\<open>json.loads\<close> on these texts and on the malformed \<open>txt_invalid\<close> (and is not used
  on any other).
\<close>

definition point_feature :: "json \<Rightarrow> json" where
  "point_feature coords =
     JDict [(''geometry'', JDict [(''type'', JStr ''Point''), (''coordinates'', coords)])]"

definition collection :: "json list \<Rightarrow> json" where
  "collection fs = JDict [(''features'', JList fs)]"

definition txt_origin :: string where
  \<open>txt_origin = ''{"features": [{"geometry": {"type": "Point", "coordinates": [0, 0]}}]}''\<close>

definition txt_antipode :: string where
  \<open>txt_antipode =
     ''{"features": [{"geometry": {"type": "Point", "coordinates": [180, 0]}}]}''\<close>

definition txt_nested :: string where
  \<open>txt_nested = ''{"features": [{"geometry": {"type": "Polygon", "coordinates": [[[0, 0], [1, 0], [1, 1], [0, 0]]]}}, {"geometry": {"type": "Point", "coordinates": [[[2.5, 48.8]]]}}]}''\<close>

definition txt_no_features :: string where
  \<open>txt_no_features = ''{"features": []}''\<close>

definition txt_invalid :: string where
  \<open>txt_invalid = ''{not valid}''\<close>

definition txt_array :: string where
  \<open>txt_array = ''[1, 2]''\<close>

definition txt_bad_feature :: string where
  \<open>txt_bad_feature =
     ''{"features": [1, {"geometry": {"type": "Point", "coordinates": [1, 2]}}]}''\<close>

definition txt_infinite :: string where
  \<open>txt_infinite =
     ''{"features": [{"geometry": {"type": "Point", "coordinates": [1e999, 0]}}]}''\<close>

definition polygon_feature :: json where
  "polygon_feature =
     JDict [(''geometry'', JDict [(''type'', JStr ''Polygon''),
       (''coordinates'', JList [JList [JList [JInt 0, JInt 0], JList [JInt 1, JInt 0],
          JList [JInt 1, JInt 1], JList [JInt 0, JInt 0]]])])]"

definition nested_coords :: json where
  "nested_coords = JList [JList [JList [JFloat (Finite 2.5), JFloat (Finite 48.8)]]]"

definition sample_table :: "(string \<times> json) list" where
  "sample_table =
     [(txt_origin, collection [point_feature (JList [JInt 0, JInt 0])]),
      (txt_antipode, collection [point_feature (JList [JInt 180, JInt 0])]),
      (txt_nested, collection [polygon_feature, point_feature nested_coords]),
      (txt_no_features, collection []),
      (txt_array, JList [JInt 1, JInt 2]),
      (txt_bad_feature, collection [JInt 1, point_feature (JList [JInt 1, JInt 2])]),
      (txt_infinite, collection [point_feature (JList [JFloat PosInf, JInt 0])])]"

definition sample_loads :: "string \<Rightarrow> error + json" where
  "sample_loads s =
     (case map_of sample_table s of None \<Rightarrow> Inl JSONDecodeError | Some v \<Rightarrow> Inr v)"

text \<open>
  A site with the warehouse \<open>WH-1\<close> at longitude 0 and latitude 0, the warehouse \<open>WH-2\<close>
  whose location text is malformed, the warehouse \<open>WH-3\<close> for which the data-access layer
  fails, and any other warehouse without a location; the outcome of the fetch of the
  enabled suppliers is the parameter.
\<close>

definition db_failure :: error where
  "db_failure = UpstreamError ''OperationalError''"

definition sample_env :: "error + supplier list \<Rightarrow> env" where
  "sample_env ga =
     \<lparr>json_loads = sample_loads,
      db_get_value =
        (\<lambda>w. if w = ''WH-1'' then Inr (Some txt_origin)
             else if w = ''WH-2'' then Inr (Some txt_invalid)
             else if w = ''WH-3'' then Inl db_failure
             else Inr None),
      get_all = ga\<rparr>"

definition sup :: "string \<Rightarrow> string option \<Rightarrow> supplier" where
  "sup n loc = \<lparr>name = n, custom_geolocation = loc\<rparr>"

section \<open>The point extractor\<close>

lemma numeric_not_bool: "is_numeric x \<Longrightarrow> \<not> is_bool x"
  by (cases x) simp_all

lemma coords_point_spec:
  assumes "case v of
             JList xs \<Rightarrow> \<not> (2 \<le> length xs \<and> (is_bool (xs ! 0) \<or> is_bool (xs ! 1)))
           | _ \<Rightarrow> True"
  shows "coords_point v =
     (case v of
        JList xs \<Rightarrow>
          if 2 \<le> length xs \<and> is_numeric (xs ! 0) \<and> is_numeric (xs ! 1)
          then Some (the (as_number (xs ! 0)), the (as_number (xs ! 1)))
          else None
      | _ \<Rightarrow> None)"
proof (cases v)
  case (JList xs)
  show ?thesis
  proof (cases xs)
    case Nil
    with JList show ?thesis by simp
  next
    case (Cons lon ys)
    show ?thesis
    proof (cases ys)
      case Nil
      with JList Cons show ?thesis by simp
    next
      case (Cons lat rest)
      with JList \<open>xs = lon # ys\<close> assms show ?thesis
        by (cases lon; cases lat) simp_all
    qed
  qed
qed simp_all

lemma spec_point_not_boolean:
  "spec_point f = Some p \<Longrightarrow> \<not> boolean_coordinates f"
  by (auto simp: spec_point_def boolean_coordinates_def
      split: option.splits json.splits if_splits dest: numeric_not_bool)

lemma feature_point_plain:
  assumes "wellformed_feature f" and nb: "\<not> boolean_coordinates f"
  shows "feature_point f = Inr (spec_point f)"
proof -
  from assms obtain kvs where f: "f = JDict kvs"
    by (cases f) (simp_all add: wellformed_feature_def)
  show ?thesis
  proof (cases "map_of kvs ''geometry''")
    case None
    with f show ?thesis by (simp add: feature_point_def spec_point_def)
  next
    case (Some g)
    show ?thesis
    proof (cases "truthy g")
      case False
      then have "field ''type'' g \<noteq> Some (JStr ''Point'')"
        by (cases g) auto
      with f Some False show ?thesis by (simp add: feature_point_def spec_point_def)
    next
      case True
      with assms f Some obtain gk where g: "g = JDict gk"
        by (cases g) (simp_all add: wellformed_feature_def)
      show ?thesis
      proof (cases "map_of gk ''type'' = Some (JStr ''Point'')")
        case False
        with f Some True g show ?thesis
          by (auto simp: feature_point_def spec_point_def split: option.splits)
      next
        case ty: True
        show ?thesis
        proof (cases "map_of gk ''coordinates''")
          case None
          with f Some True g ty show ?thesis
            by (simp add: feature_point_def spec_point_def)
        next
          case (Some c)
          with nb f \<open>map_of kvs ''geometry'' = Some g\<close> g ty
          have "case unwrap_coords c of
                  JList xs \<Rightarrow> \<not> (2 \<le> length xs \<and> (is_bool (xs ! 0) \<or> is_bool (xs ! 1)))
                | _ \<Rightarrow> True"
            by (simp add: boolean_coordinates_def split: json.splits)
          from coords_point_spec [OF this] f \<open>map_of kvs ''geometry'' = Some g\<close> True g ty Some
          show ?thesis
            by (simp add: feature_point_def spec_point_def)
        qed
      qed
    qed
  qed
qed

lemma feature_point_malformed:
  assumes "\<not> wellformed_feature f"
  shows "feature_point f = Inl AttributeError"
proof (cases f)
  case (JDict kvs)
  with assms obtain g where g: "map_of kvs ''geometry'' = Some g" "truthy g" "\<not> is_dict g"
    by (auto simp: wellformed_feature_def split: option.splits)
  then have "dict_get g ''type'' = Inl AttributeError"
    by (cases g) simp_all
  with JDict g show ?thesis by (simp add: feature_point_def)
qed (simp_all add: feature_point_def)

lemma spec_point_malformed:
  assumes "\<not> wellformed_feature f"
  shows "spec_point f = None"
proof (cases f)
  case (JDict kvs)
  with assms obtain g where g: "map_of kvs ''geometry'' = Some g" "\<not> is_dict g"
    by (auto simp: wellformed_feature_def split: option.splits)
  then have "field ''type'' g = None" by (cases g) simp_all
  with JDict g show ?thesis by (simp add: spec_point_def)
qed (simp_all add: spec_point_def)

lemma first_point_Cons:
  "first_point (f # fs) = (case spec_point f of None \<Rightarrow> first_point fs | Some p \<Rightarrow> Some p)"
  by (simp add: first_point_def split: option.splits)

lemma scan_features_char:
  assumes "\<forall>f\<in>set (leading_failures fs). \<not> boolean_coordinates f"
  shows "scan_features fs =
     (if list_all wellformed_feature (leading_failures fs) then Inr (first_point fs)
      else Inl AttributeError)"
  using assms
proof (induction fs)
  case Nil
  show ?case by (simp add: leading_failures_def first_point_def)
next
  case (Cons f fs)
  show ?case
  proof (cases "spec_point f")
    case (Some p)
    then have "wellformed_feature f" "\<not> boolean_coordinates f"
      using spec_point_malformed [of f] spec_point_not_boolean [of f p] by auto
    with Some show ?thesis
      by (simp add: feature_point_plain first_point_Cons leading_failures_def)
  next
    case None
    with Cons.prems have nb: "\<not> boolean_coordinates f"
      and rest: "\<forall>g\<in>set (leading_failures fs). \<not> boolean_coordinates g"
      by (simp_all add: leading_failures_def)
    show ?thesis
    proof (cases "wellformed_feature f")
      case False
      with None show ?thesis
        by (simp add: feature_point_malformed leading_failures_def)
    next
      case True
      with None nb Cons.IH [OF rest] show ?thesis
        by (simp add: feature_point_plain first_point_Cons leading_failures_def)
    qed
  qed
qed

lemma unwrap_coords_reaches:
  "(\<lambda>a b. unwrap_step a = Some b)\<^sup>*\<^sup>* c (unwrap_coords c)"
proof (induction c rule: unwrap_coords.induct)
  case (1 ys xs)
  have "unwrap_step (JList (JList ys # xs)) = Some (JList ys)" by simp
  with 1 show ?case by (simp add: converse_rtranclp_into_rtranclp)
qed simp_all

lemma unwrap_coords_normal: "unwrap_step (unwrap_coords c) = None"
  by (induction c rule: unwrap_coords.induct) simp_all

text \<open>
  Claim C2, as amended. For an input that decodes to a mapping whose \<open>"features"\<close> is a
  list, the extractor goes through the features in order and returns the point of the
  first feature that passes the test of the specification (geometry type \<open>"Point"\<close>,
  coordinates that unwrap to a sequence of at least two elements of which the first two
  are numeric: integers or floating point numbers), provided every feature before it is
  a mapping whose geometry is missing, falsy or a mapping; such features are passed
  over. If one of them is not, the extractor raises \<open>AttributeError\<close> there. Nothing is
  said of an input in which a feature with a boolean coordinate comes before the first
  feature that passes the test. The unwrapping is the repeated replacement of a
  non-empty list whose first element is a list by that first element, until no such step
  applies.
\<close>

theorem extractor_first_valid_point:
  "(s \<noteq> [] \<and> loads s = Inr (JDict kvs) \<and> map_of kvs ''features'' = Some (JList fs)
      \<and> (\<forall>f\<in>set (leading_failures fs). \<not> boolean_coordinates f)
      \<longrightarrow> get_coordinates_from_geojson loads (Some s) =
           (if list_all wellformed_feature (leading_failures fs) then Inr (first_point fs)
            else Inl AttributeError))
   \<and> (\<lambda>a b. unwrap_step a = Some b)\<^sup>*\<^sup>* c (unwrap_coords c)
   \<and> unwrap_step (unwrap_coords c) = None"
proof (intro conjI impI)
  assume a: "s \<noteq> [] \<and> loads s = Inr (JDict kvs) \<and> map_of kvs ''features'' = Some (JList fs)
      \<and> (\<forall>f\<in>set (leading_failures fs). \<not> boolean_coordinates f)"
  then have nb: "\<forall>f\<in>set (leading_failures fs). \<not> boolean_coordinates f" by blast
  show "get_coordinates_from_geojson loads (Some s) =
           (if list_all wellformed_feature (leading_failures fs) then Inr (first_point fs)
            else Inl AttributeError)"
  proof (cases fs)
    case Nil
    with a show ?thesis
      by (simp add: get_coordinates_from_geojson_def leading_failures_def first_point_def)
  next
    case (Cons f rest)
    with a have "get_coordinates_from_geojson loads (Some s) = scan_features fs"
      by (simp add: get_coordinates_from_geojson_def del: scan_features.simps)
    then show ?thesis by (simp only: scan_features_char [OF nb])
  qed
qed (rule unwrap_coords_reaches, rule unwrap_coords_normal)

text \<open>The instance of the specification: the coordinates \<open>[[[2.5, 48.8]]]\<close> give the point
  \<open>(2.5, 48.8)\<close>, after a polygon feature that is passed over.\<close>

theorem extractor_first_valid_point_witness:
  "get_coordinates_from_geojson sample_loads (Some txt_nested) =
     Inr (Some (PyFloat (Finite 2.5), PyFloat (Finite 48.8)))
   \<and> unwrap_coords nested_coords = JList [JFloat (Finite 2.5), JFloat (Finite 48.8)]"
proof -
  have l: "sample_loads txt_nested =
      Inr (JDict [(''features'', JList [polygon_feature, point_feature nested_coords])])"
    by (simp add: sample_loads_def sample_table_def txt_origin_def txt_antipode_def
        txt_nested_def collection_def)
  have n: "txt_nested \<noteq> []" by (simp add: txt_nested_def)
  have p1: "spec_point polygon_feature = None"
    by (simp add: spec_point_def polygon_feature_def)
  have p2: "spec_point (point_feature nested_coords) =
      Some (PyFloat (Finite 2.5), PyFloat (Finite 48.8))"
    by (simp add: spec_point_def point_feature_def nested_coords_def)
  have w: "wellformed_feature polygon_feature"
    by (simp add: wellformed_feature_def polygon_feature_def)
  have b: "\<not> boolean_coordinates polygon_feature"
    by (simp add: boolean_coordinates_def polygon_feature_def)
  have u: "unwrap_coords nested_coords = JList [JFloat (Finite 2.5), JFloat (Finite 48.8)]"
    by (simp add: nested_coords_def)
  have lf: "leading_failures [polygon_feature, point_feature nested_coords] =
      [polygon_feature]"
    by (simp add: leading_failures_def p1 p2)
  from extractor_first_valid_point [of txt_nested sample_loads
      "[(''features'', JList [polygon_feature, point_feature nested_coords])]"
      "[polygon_feature, point_feature nested_coords]" nested_coords] l n lf b
  have "get_coordinates_from_geojson sample_loads (Some txt_nested) =
      (if list_all wellformed_feature [polygon_feature]
       then Inr (first_point [polygon_feature, point_feature nested_coords])
       else Inl AttributeError)"
    by simp
  with p1 p2 w u show ?thesis
    by (simp add: first_point_def)
qed

text \<open>
  Claim C2 as stated fails on a feature that is not a mapping: in
  \<open>{"features": [1, {"geometry": {"type": "Point", "coordinates": [1, 2]}}]}\<close> the first
  feature fails the test and the second passes it with the point \<open>(1, 2)\<close>, but the
  extractor raises \<open>AttributeError\<close> on the first one instead of going on.
\<close>

theorem non_mapping_feature_raises_counterexample:
  "sample_loads txt_bad_feature =
       Inr (collection [JInt 1, point_feature (JList [JInt 1, JInt 2])])
   \<and> first_point [JInt 1, point_feature (JList [JInt 1, JInt 2])] = Some (PyInt 1, PyInt 2)
   \<and> get_coordinates_from_geojson sample_loads (Some txt_bad_feature) = Inl AttributeError"
  by (simp add: spec_point_def first_point_def point_feature_def sample_loads_def
      sample_table_def txt_origin_def txt_antipode_def txt_nested_def txt_no_features_def
      txt_array_def txt_bad_feature_def collection_def get_coordinates_from_geojson_def
      feature_point_def)

lemma dict_get_error: "dict_get v k = Inl e \<Longrightarrow> e = AttributeError"
  by (cases v) simp_all

lemma feature_point_error: "feature_point f = Inl e \<Longrightarrow> e = AttributeError"
  by (auto simp: feature_point_def split: sum.splits if_splits dest: dict_get_error)

lemma scan_features_error: "scan_features fs = Inl e \<Longrightarrow> e = AttributeError"
proof (induction fs)
  case Nil
  then show ?case by simp
next
  case (Cons f fs)
  show ?case
  proof (cases "feature_point f")
    case (Inl e')
    with Cons.prems feature_point_error [OF Inl] show ?thesis by simp
  next
    case (Inr r)
    with Cons show ?thesis by (cases r) simp_all
  qed
qed

lemma iter_json_error: "iter_json v = Inl e \<Longrightarrow> e = TypeError"
  by (cases v) simp_all

lemma leading_failures_plain:
  assumes "list_all plain_feature fs"
  shows "list_all wellformed_feature (leading_failures fs)"
    and "\<forall>f\<in>set (leading_failures fs). \<not> boolean_coordinates f"
  using assms
  by (auto simp: list_all_iff leading_failures_def plain_feature_def dest: set_takeWhileD)

lemma extractor_decode_error:
  "get_coordinates_from_geojson loads raw = Inl JSONDecodeError \<longleftrightarrow> spec_parse_error loads raw"
  by (auto simp: get_coordinates_from_geojson_def spec_parse_error_def
      split: option.splits sum.splits if_splits
      dest: dict_get_error iter_json_error scan_features_error)

lemma extractor_conforming:
  assumes "conforming data" "s \<noteq> []" "loads s = Inr data"
  shows "get_coordinates_from_geojson loads (Some s) =
           (case field ''features'' data of
              None \<Rightarrow> Inr None
            | Some v \<Rightarrow> if truthy v then Inr (first_point (features_of data)) else Inr None)"
proof -
  from assms(1) obtain kvs where d: "data = JDict kvs"
    by (cases data) (simp_all add: conforming_def)
  show ?thesis
  proof (cases "map_of kvs ''features''")
    case None
    with d assms show ?thesis by (simp add: get_coordinates_from_geojson_def)
  next
    case (Some v)
    show ?thesis
    proof (cases "truthy v")
      case False
      with d Some assms show ?thesis by (simp add: get_coordinates_from_geojson_def)
    next
      case True
      with assms(1) d Some obtain fs where v: "v = JList fs" "list_all plain_feature fs"
        by (cases v) (simp_all add: conforming_def)
      from leading_failures_plain [OF v(2)] have "scan_features fs = Inr (first_point fs)"
        by (simp only: scan_features_char if_True)
      with d Some True v assms show ?thesis
        by (simp add: get_coordinates_from_geojson_def features_of_def
            del: scan_features.simps)
    qed
  qed
qed

text \<open>
  Claim C3, as amended. The extractor raises \<open>JSONDecodeError\<close> exactly when the input is
  not empty and \<^verbatim>\<open>json.loads\<close> raises it. For an input that is empty or absent, or on
  which \<^verbatim>\<open>json.loads\<close> raises, or that decodes to a mapping whose \<open>"features"\<close> is
  missing, falsy or a list of mappings, each with a geometry that is missing, falsy or a
  mapping and without a boolean coordinate, the extractor raises exactly what
  \<^verbatim>\<open>json.loads\<close> raises on it and nothing of its own, and it returns absent exactly when
  the input is empty or absent, or the decoded data has no \<open>"features"\<close> key or a falsy
  one, or no feature yields a valid point. Nothing is said of the other inputs.
\<close>

theorem extractor_absent_or_parse_error:
  "(get_coordinates_from_geojson loads raw = Inl JSONDecodeError
      \<longleftrightarrow> spec_parse_error loads raw)
   \<and> (decodes_conforming loads raw \<longrightarrow>
        (get_coordinates_from_geojson loads raw = Inr None \<longleftrightarrow> spec_absent loads raw)
        \<and> (\<forall>e. get_coordinates_from_geojson loads raw = Inl e
              \<longleftrightarrow> loads_raises loads raw e))"
proof (intro conjI impI)
  show "get_coordinates_from_geojson loads raw = Inl JSONDecodeError
      \<longleftrightarrow> spec_parse_error loads raw"
    by (rule extractor_decode_error)
next
  assume c: "decodes_conforming loads raw"
  show "get_coordinates_from_geojson loads raw = Inr None \<longleftrightarrow> spec_absent loads raw"
  proof (cases raw)
    case None
    then show ?thesis by (simp add: get_coordinates_from_geojson_def spec_absent_def)
  next
    case (Some s)
    show ?thesis
    proof (cases "s = []")
      case True
      with Some show ?thesis by (simp add: get_coordinates_from_geojson_def spec_absent_def)
    next
      case False
      show ?thesis
      proof (cases "loads s")
        case (Inl e)
        with Some False show ?thesis
          by (simp add: get_coordinates_from_geojson_def spec_absent_def)
      next
        case (Inr data)
        with c Some have "conforming data" by (simp add: decodes_conforming_def)
        from extractor_conforming [of data s loads, OF this False Inr] Some False Inr
        show ?thesis by (simp add: spec_absent_def split: option.splits)
      qed
    qed
  qed
next
  assume c: "decodes_conforming loads raw"
  show "\<forall>e. get_coordinates_from_geojson loads raw = Inl e \<longleftrightarrow> loads_raises loads raw e"
  proof (cases raw)
    case None
    then show ?thesis by (simp add: get_coordinates_from_geojson_def loads_raises_def)
  next
    case (Some s)
    show ?thesis
    proof (cases "s = []")
      case True
      with Some show ?thesis by (simp add: get_coordinates_from_geojson_def loads_raises_def)
    next
      case False
      show ?thesis
      proof (cases "loads s")
        case (Inl e)
        with Some False show ?thesis
          by (simp add: get_coordinates_from_geojson_def loads_raises_def)
      next
        case (Inr data)
        with c Some have "conforming data" by (simp add: decodes_conforming_def)
        from extractor_conforming [of data s loads, OF this False Inr] Some False Inr
        show ?thesis by (simp add: loads_raises_def split: option.splits if_splits)
      qed
    qed
  qed
qed

lemma sample_loads_no_features: "sample_loads txt_no_features = Inr (collection [])"
  by (simp add: sample_loads_def sample_table_def txt_origin_def txt_antipode_def
      txt_nested_def txt_no_features_def)

lemma sample_loads_invalid: "sample_loads txt_invalid = Inl JSONDecodeError"
  by (simp add: sample_loads_def sample_table_def txt_origin_def txt_antipode_def
      txt_nested_def txt_no_features_def txt_array_def txt_bad_feature_def txt_infinite_def
      txt_invalid_def)

theorem extractor_absent_or_parse_error_witness:
  "decodes_conforming sample_loads (Some txt_no_features)
   \<and> get_coordinates_from_geojson sample_loads (Some txt_no_features) = Inr None
   \<and> get_coordinates_from_geojson sample_loads (Some txt_invalid) = Inl JSONDecodeError"
proof -
  have c: "decodes_conforming sample_loads (Some txt_no_features)"
    by (simp add: decodes_conforming_def sample_loads_no_features collection_def
        conforming_def)
  have a: "spec_absent sample_loads (Some txt_no_features)"
    by (simp add: spec_absent_def sample_loads_no_features collection_def)
  have p: "spec_parse_error sample_loads (Some txt_invalid)"
    by (simp add: spec_parse_error_def sample_loads_invalid) (simp add: txt_invalid_def)
  from extractor_absent_or_parse_error [of sample_loads "Some txt_no_features"] c a
  have 1: "get_coordinates_from_geojson sample_loads (Some txt_no_features) = Inr None"
    by simp
  from extractor_absent_or_parse_error [of sample_loads "Some txt_invalid"] p
  have 2: "get_coordinates_from_geojson sample_loads (Some txt_invalid) = Inl JSONDecodeError"
    by simp
  from c 1 2 show ?thesis by simp
qed

text \<open>
  Claim C3 as stated fails on an input that decodes to something else than a mapping:
  \<open>[1, 2]\<close> is valid structured data without a \<open>"features"\<close> key, so the claim has the
  extractor return absent, but \<^verbatim>\<open>data.get\<close> raises \<open>AttributeError\<close>.
\<close>

theorem non_mapping_data_raises_counterexample:
  "sample_loads txt_array = Inr (JList [JInt 1, JInt 2])
   \<and> spec_absent sample_loads (Some txt_array)
   \<and> \<not> spec_parse_error sample_loads (Some txt_array)
   \<and> get_coordinates_from_geojson sample_loads (Some txt_array) = Inl AttributeError"
  by (simp add: sample_loads_def sample_table_def txt_origin_def txt_antipode_def
      txt_nested_def txt_no_features_def txt_array_def spec_absent_def spec_parse_error_def
      get_coordinates_from_geojson_def)


section \<open>The nearest supplier\<close>

text \<open>
  Claim C7. For an empty or absent warehouse id, \<open>get_nearest_supplier\<close> returns absent
  at once and calls nothing: neither the fetch of the warehouse location nor the fetch of
  the suppliers happens, and nothing is logged.
\<close>

theorem empty_warehouse_id_no_calls:
  "get_nearest_supplier E None = ([], Inr None)
   \<and> get_nearest_supplier E (Some []) = ([], Inr None)"
  by (simp add: get_nearest_supplier_def)

subsection \<open>The loop over the suppliers\<close>

lemma scan_suppliers_append:
  "scan_suppliers loads wp (xs @ ys) acc =
     scan_suppliers loads wp ys (scan_suppliers loads wp xs acc)"
proof (induction xs arbitrary: acc)
  case Nil
  show ?case by simp
next
  case (Cons s xs)
  obtain evs st where acc: "acc = (evs, st)" by (cases acc)
  show ?case unfolding acc by (simp add: Cons.IH split: sum.splits)
qed

lemma scan_suppliers_events:
  "scan_suppliers loads wp ss (evs, st) =
     (evs @ fst (scan_suppliers loads wp ss ([], st)),
      snd (scan_suppliers loads wp ss ([], st)))"
proof (induction ss arbitrary: evs st)
  case Nil
  show ?case by simp
next
  case (Cons s ss)
  show ?case
  proof (cases "supplier_body loads wp s st")
    case (Inl e)
    then show ?thesis
      using Cons.IH [of "evs @ [LogError supplier_error_title (name s) e]" st]
        Cons.IH [of "[LogError supplier_error_title (name s) e]" st]
      by simp
  next
    case (Inr st')
    then show ?thesis using Cons.IH [of evs st'] by simp
  qed
qed

lemma supplier_body_raise_any_state:
  "supplier_body loads wp b st = Inl e \<Longrightarrow> supplier_body loads wp b st' = Inl e"
  by (auto simp: supplier_body_def ebind_def split: sum.splits option.splits if_splits)

lemma supplier_body_no_point:
  "\<not> yields_point loads b \<Longrightarrow>
     supplier_body loads wp b st =
       (case get_coordinates_from_geojson loads (custom_geolocation b) of
          Inl e \<Rightarrow> Inl e | Inr r \<Rightarrow> Inr st)"
  by (auto simp: supplier_body_def yields_point_def ebind_def split: sum.splits option.splits)

lemma scan_suppliers_raise:
  assumes "supplier_body loads wp b st0 = Inl e"
  shows "scan_suppliers loads wp (xs @ b # ys) (evs, st) =
     (fst (scan_suppliers loads wp xs (evs, st))
        @ LogError supplier_error_title (name b) e
        # fst (scan_suppliers loads wp ys ([], snd (scan_suppliers loads wp xs (evs, st)))),
      snd (scan_suppliers loads wp ys ([], snd (scan_suppliers loads wp xs (evs, st)))))"
proof -
  obtain evs1 st1 where 1: "scan_suppliers loads wp xs (evs, st) = (evs1, st1)"
    by (cases "scan_suppliers loads wp xs (evs, st)")
  from assms have b: "supplier_body loads wp b st1 = Inl e"
    by (rule supplier_body_raise_any_state)
  have "scan_suppliers loads wp (xs @ b # ys) (evs, st) =
      scan_suppliers loads wp ys (evs1 @ [LogError supplier_error_title (name b) e], st1)"
    by (simp add: scan_suppliers_append 1 b)
  also have "\<dots> = (evs1 @ LogError supplier_error_title (name b) e
        # fst (scan_suppliers loads wp ys ([], st1)),
      snd (scan_suppliers loads wp ys ([], st1)))"
    using scan_suppliers_events [of loads wp ys
        "evs1 @ [LogError supplier_error_title (name b) e]" st1]
    by simp
  finally show ?thesis by (simp add: 1)
qed

lemma scan_suppliers_without:
  "scan_suppliers loads wp (xs @ ys) (evs, st) =
     (fst (scan_suppliers loads wp xs (evs, st))
        @ fst (scan_suppliers loads wp ys ([], snd (scan_suppliers loads wp xs (evs, st)))),
      snd (scan_suppliers loads wp ys ([], snd (scan_suppliers loads wp xs (evs, st)))))"
proof -
  obtain evs1 st1 where 1: "scan_suppliers loads wp xs (evs, st) = (evs1, st1)"
    by (cases "scan_suppliers loads wp xs (evs, st)")
  show ?thesis
    using scan_suppliers_events [of loads wp ys evs1 st1]
    by (simp add: scan_suppliers_append 1)
qed

lemma scan_suppliers_pass:
  assumes "\<And>st'. supplier_body loads wp b st' = Inr st'"
  shows "scan_suppliers loads wp (xs @ b # ys) acc = scan_suppliers loads wp (xs @ ys) acc"
proof -
  obtain evs1 st1 where 1: "scan_suppliers loads wp xs acc = (evs1, st1)"
    by (cases "scan_suppliers loads wp xs acc")
  show ?thesis by (simp add: scan_suppliers_append 1 assms)
qed

subsection \<open>The function on a warehouse whose point is known\<close>

lemma nearest_located:
  assumes "w \<noteq> []" "warehouse_coords E w = Inr wp" "get_all E = Inr ss"
  shows "get_nearest_supplier E (Some w) =
     ([GetValue w, GetAll] @ fst (scan_suppliers (json_loads E) wp ss ([], initial_state)),
      Inr (nearest_supplier_info
             (snd (scan_suppliers (json_loads E) wp ss ([], initial_state)))))"
  using assms scan_suppliers_events [of "json_loads E" wp ss "[GetValue w, GetAll]" initial_state]
  by (simp add: get_nearest_supplier_def split: prod.splits)

lemma nearest_not_located:
  assumes "w \<noteq> []" "warehouse_coords E w = Inl e"
  shows "get_nearest_supplier E (Some w) =
     ([GetValue w, LogError warehouse_error_title w e], Inr None)"
  using assms by (simp add: get_nearest_supplier_def)

lemma warehouse_coords_update [simp]:
  "warehouse_coords (E\<lparr>get_all := ga\<rparr>) w = warehouse_coords E w"
  by (simp add: warehouse_coords_def)

lemma nearest_returns:
  assumes "get_all E = Inr ss"
  shows "\<exists>r. snd (get_nearest_supplier E w) = Inr r"
  using assms
  by (simp add: get_nearest_supplier_def split: option.splits sum.splits prod.splits)

text \<open>
  Claim C4. When the location of the warehouse is fetched and no point comes out of it
  (the location is absent or empty, the text does not decode, the extractor raises, or no
  feature yields a valid point), \<open>get_nearest_supplier\<close> returns absent and raises
  nothing: for a non-empty id the only thing it does after the fetch is one call of
  \<^verbatim>\<open>frappe.log_error\<close> that names the warehouse and the error, and the suppliers are
  not fetched; for an empty id it does nothing at all.
\<close>

theorem warehouse_failure_returns_absent:
  assumes "db_get_value E w = Inr loc"
    and "\<forall>p. get_coordinates_from_geojson (json_loads E) loc \<noteq> Inr (Some p)"
  shows "get_nearest_supplier E (Some w) =
     (if w = [] then ([], Inr None)
      else ([GetValue w,
             LogError warehouse_error_title w
               (case get_coordinates_from_geojson (json_loads E) loc of
                  Inl e \<Rightarrow> e | Inr r \<Rightarrow> no_point_error)],
            Inr None))"
proof (cases "w = []")
  case True
  then show ?thesis by (simp add: get_nearest_supplier_def)
next
  case False
  from assms have "warehouse_coords E w =
      Inl (case get_coordinates_from_geojson (json_loads E) loc of
             Inl e \<Rightarrow> e | Inr r \<Rightarrow> no_point_error)"
    by (auto simp: warehouse_coords_def ebind_def split: sum.splits option.splits)
  with False show ?thesis by (simp add: nearest_not_located)
qed

theorem warehouse_failure_returns_absent_witness:
  "get_nearest_supplier (sample_env (Inr [])) (Some ''WH-2'') =
     ([GetValue ''WH-2'', LogError warehouse_error_title ''WH-2'' JSONDecodeError], Inr None)
   \<and> get_nearest_supplier (sample_env (Inr [])) (Some ''WH-4'') =
     ([GetValue ''WH-4'', LogError warehouse_error_title ''WH-4'' no_point_error], Inr None)"
proof -
  have "txt_invalid \<noteq> []" by (simp add: txt_invalid_def)
  then have g:
    "get_coordinates_from_geojson sample_loads (Some txt_invalid) = Inl JSONDecodeError"
    by (simp add: get_coordinates_from_geojson_def sample_loads_invalid)
  have n: "get_coordinates_from_geojson sample_loads None = Inr None"
    by (simp add: get_coordinates_from_geojson_def)
  have 1: "get_nearest_supplier (sample_env (Inr [])) (Some ''WH-2'') =
     ([GetValue ''WH-2'', LogError warehouse_error_title ''WH-2'' JSONDecodeError], Inr None)"
    using warehouse_failure_returns_absent [of "sample_env (Inr [])" "''WH-2''" "Some txt_invalid"] g
    by (simp add: sample_env_def)
  have 2: "get_nearest_supplier (sample_env (Inr [])) (Some ''WH-4'') =
     ([GetValue ''WH-4'', LogError warehouse_error_title ''WH-4'' no_point_error], Inr None)"
    using warehouse_failure_returns_absent [of "sample_env (Inr [])" "''WH-4''" None] n
    by (simp add: sample_env_def)
  from 1 2 show ?thesis by simp
qed

subsection \<open>The sample data, evaluated\<close>

lemma sample_texts_nonempty:
  "txt_origin \<noteq> []" "txt_antipode \<noteq> []" "txt_infinite \<noteq> []" "txt_invalid \<noteq> []"
  by (simp_all add: txt_origin_def txt_antipode_def txt_infinite_def txt_invalid_def)

lemma sample_loads_origin:
  "sample_loads txt_origin = Inr (collection [point_feature (JList [JInt 0, JInt 0])])"
  by (simp add: sample_loads_def sample_table_def)

lemma sample_loads_antipode:
  "sample_loads txt_antipode = Inr (collection [point_feature (JList [JInt 180, JInt 0])])"
  by (simp add: sample_loads_def sample_table_def txt_origin_def txt_antipode_def)

lemma sample_loads_infinite:
  "sample_loads txt_infinite =
     Inr (collection [point_feature (JList [JFloat PosInf, JInt 0])])"
  by (simp add: sample_loads_def sample_table_def txt_origin_def txt_antipode_def
      txt_nested_def txt_no_features_def txt_array_def txt_bad_feature_def txt_infinite_def)

lemma sample_collection_point:
  "s \<noteq> [] \<Longrightarrow> loads s = Inr (collection [point_feature (JList [x, y])]) \<Longrightarrow>
     as_number x = Some a \<Longrightarrow> as_number y = Some b \<Longrightarrow>
     get_coordinates_from_geojson loads (Some s) = Inr (Some (a, b))"
  by (cases x; cases y)
    (simp_all add: get_coordinates_from_geojson_def collection_def point_feature_def
      feature_point_def)

lemma sample_points:
  "get_coordinates_from_geojson sample_loads (Some txt_origin) = Inr (Some (PyInt 0, PyInt 0))"
  "get_coordinates_from_geojson sample_loads (Some txt_antipode) =
     Inr (Some (PyInt 180, PyInt 0))"
  "get_coordinates_from_geojson sample_loads (Some txt_infinite) =
     Inr (Some (PyFloat PosInf, PyInt 0))"
  "get_coordinates_from_geojson sample_loads (Some txt_invalid) = Inl JSONDecodeError"
  "get_coordinates_from_geojson sample_loads None = Inr None"
  by (simp_all add: sample_collection_point sample_texts_nonempty sample_loads_origin
      sample_loads_antipode sample_loads_infinite)
    (simp_all add: get_coordinates_from_geojson_def sample_loads_invalid
      sample_texts_nonempty)

lemma sample_distances:
  "haversine_distance (PyInt 0) (PyInt 0) (PyInt 0) (PyInt 0) = Inr (Finite 0)"
  "haversine_distance (PyInt 0) (PyInt 0) (PyInt 180) (PyInt 0) = Inr (Finite (6371 * pi))"
  "haversine_distance (PyInt 0) (PyInt 0) (PyFloat PosInf) (PyInt 0) = Inl math_domain_error"
  by (simp_all add: haversine_distance_def haversine_formula_def ebind_def
      float_overflow_bound_def)

lemma sample_warehouse:
  "warehouse_coords (sample_env ga) ''WH-1'' = Inr (PyInt 0, PyInt 0)"
  by (simp add: warehouse_coords_def sample_env_def ebind_def sample_points)

lemma sample_bodies:
  "supplier_body sample_loads (PyInt 0, PyInt 0) (sup n (Some txt_origin)) st =
     Inr (if flt (Finite 0) (min_distance st)
          then \<lparr>nearest_supplier_info = Some (NearestInfo n (Finite 0)),
                min_distance = Finite 0\<rparr>
          else st)"
  "supplier_body sample_loads (PyInt 0, PyInt 0) (sup n (Some txt_antipode)) st =
     Inr (if flt (Finite (6371 * pi)) (min_distance st)
          then \<lparr>nearest_supplier_info = Some (NearestInfo n (Finite (6371 * pi))),
                min_distance = Finite (6371 * pi)\<rparr>
          else st)"
  "supplier_body sample_loads (PyInt 0, PyInt 0) (sup n (Some txt_infinite)) st =
     Inl math_domain_error"
  "supplier_body sample_loads (PyInt 0, PyInt 0) (sup n (Some txt_invalid)) st =
     Inl JSONDecodeError"
  "supplier_body sample_loads (PyInt 0, PyInt 0) (sup n None) st = Inr st"
  by (simp_all add: supplier_body_def sup_def ebind_def sample_points sample_distances)

text \<open>
  Claim C6. A failure of the fetch of the warehouse location, or of the extraction on it,
  is logged and makes \<open>get_nearest_supplier\<close> return absent; a failure of the fetch of
  the enabled suppliers, which happens once the warehouse has its point, reaches the
  caller as the exception itself, and nothing is logged.
\<close>

theorem warehouse_soft_suppliers_hard:
  "(w \<noteq> [] \<and> db_get_value E w = Inl e \<longrightarrow>
      get_nearest_supplier E (Some w) =
        ([GetValue w, LogError warehouse_error_title w e], Inr None))
   \<and> (w \<noteq> [] \<and> db_get_value E w = Inr loc
        \<and> get_coordinates_from_geojson (json_loads E) loc = Inl e \<longrightarrow>
      get_nearest_supplier E (Some w) =
        ([GetValue w, LogError warehouse_error_title w e], Inr None))
   \<and> (w \<noteq> [] \<and> warehouse_coords E w = Inr wp \<and> get_all E = Inl e \<longrightarrow>
      get_nearest_supplier E (Some w) = ([GetValue w, GetAll], Inl e))"
  by (simp add: get_nearest_supplier_def warehouse_coords_def ebind_def)

theorem warehouse_soft_suppliers_hard_witness:
  "get_nearest_supplier (sample_env (Inl db_failure)) (Some ''WH-3'') =
     ([GetValue ''WH-3'', LogError warehouse_error_title ''WH-3'' db_failure], Inr None)
   \<and> get_nearest_supplier (sample_env (Inl db_failure)) (Some ''WH-2'') =
     ([GetValue ''WH-2'', LogError warehouse_error_title ''WH-2'' JSONDecodeError], Inr None)
   \<and> get_nearest_supplier (sample_env (Inl db_failure)) (Some ''WH-1'') =
     ([GetValue ''WH-1'', GetAll], Inl db_failure)"
proof -
  let ?E = "sample_env (Inl db_failure)"
  have 1: "get_nearest_supplier ?E (Some ''WH-3'') =
     ([GetValue ''WH-3'', LogError warehouse_error_title ''WH-3'' db_failure], Inr None)"
    using warehouse_soft_suppliers_hard [of "''WH-3''" ?E db_failure]
    by (simp add: sample_env_def)
  have 2: "get_nearest_supplier ?E (Some ''WH-2'') =
     ([GetValue ''WH-2'', LogError warehouse_error_title ''WH-2'' JSONDecodeError], Inr None)"
    using warehouse_soft_suppliers_hard [of "''WH-2''" ?E JSONDecodeError "Some txt_invalid"]
      sample_points(4)
    by (simp add: sample_env_def)
  have 3: "get_nearest_supplier ?E (Some ''WH-1'') = ([GetValue ''WH-1'', GetAll], Inl db_failure)"
    using warehouse_soft_suppliers_hard [of "''WH-1''" ?E db_failure _ "(PyInt 0, PyInt 0)"]
      sample_warehouse [of "Inl db_failure"]
    by (simp add: sample_env_def)
  from 1 2 3 show ?thesis by simp
qed

lemma nearest_skip_raise:
  assumes w': "w' \<noteq> []" and wp: "warehouse_coords E w' = Inr wp"
    and ga: "get_all E = Inr (xs @ b # ys)"
    and body: "supplier_body (json_loads E) wp b st0 = Inl e"
  shows "snd (get_nearest_supplier E (Some w')) =
           snd (get_nearest_supplier (E\<lparr>get_all := Inr (xs @ ys)\<rparr>) (Some w'))
     \<and> (\<exists>evs1 evs2.
           fst (get_nearest_supplier E (Some w')) =
             evs1 @ [LogError supplier_error_title (name b) e] @ evs2
           \<and> fst (get_nearest_supplier (E\<lparr>get_all := Inr (xs @ ys)\<rparr>) (Some w')) =
             evs1 @ evs2)"
proof -
  let ?E' = "E\<lparr>get_all := Inr (xs @ ys)\<rparr>"
  let ?evs1 = "[GetValue w', GetAll]
      @ fst (scan_suppliers (json_loads E) wp xs ([], initial_state))"
  let ?evs2 = "fst (scan_suppliers (json_loads E) wp ys
      ([], snd (scan_suppliers (json_loads E) wp xs ([], initial_state))))"
  have full: "scan_suppliers (json_loads E) wp (xs @ b # ys) ([], initial_state) =
      (fst (scan_suppliers (json_loads E) wp xs ([], initial_state))
         @ LogError supplier_error_title (name b) e # ?evs2,
       snd (scan_suppliers (json_loads E) wp ys
         ([], snd (scan_suppliers (json_loads E) wp xs ([], initial_state)))))"
    by (rule scan_suppliers_raise [OF body])
  have less: "scan_suppliers (json_loads E) wp (xs @ ys) ([], initial_state) =
      (fst (scan_suppliers (json_loads E) wp xs ([], initial_state)) @ ?evs2,
       snd (scan_suppliers (json_loads E) wp ys
         ([], snd (scan_suppliers (json_loads E) wp xs ([], initial_state)))))"
    by (rule scan_suppliers_without)
  note gE = nearest_located [OF w' wp ga]
  have gE': "get_nearest_supplier ?E' (Some w') =
      ([GetValue w', GetAll]
         @ fst (scan_suppliers (json_loads E) wp (xs @ ys) ([], initial_state)),
       Inr (nearest_supplier_info
         (snd (scan_suppliers (json_loads E) wp (xs @ ys) ([], initial_state)))))"
    using nearest_located [of w' ?E' wp "xs @ ys"] w' wp by simp
  have "fst (get_nearest_supplier E (Some w')) =
      ?evs1 @ [LogError supplier_error_title (name b) e] @ ?evs2"
    and "fst (get_nearest_supplier ?E' (Some w')) = ?evs1 @ ?evs2"
    and "snd (get_nearest_supplier E (Some w')) = snd (get_nearest_supplier ?E' (Some w'))"
    by (simp_all add: gE gE' full less)
  then show ?thesis
    by (intro conjI exI [of _ ?evs1] exI [of _ ?evs2]) simp_all
qed

lemma nearest_skip_pass:
  assumes w': "w' \<noteq> []" and wp: "warehouse_coords E w' = Inr wp"
    and ga: "get_all E = Inr (xs @ b # ys)"
    and body: "\<And>st'. supplier_body (json_loads E) wp b st' = Inr st'"
  shows "get_nearest_supplier E (Some w') =
           get_nearest_supplier (E\<lparr>get_all := Inr (xs @ ys)\<rparr>) (Some w')"
  using w' wp ga
  by (simp add: nearest_located [of w' _ wp] scan_suppliers_pass [OF body])

lemma nearest_unlocated_update:
  assumes "\<forall>w' wp. w = Some w' \<and> w' \<noteq> [] \<longrightarrow> warehouse_coords E w' \<noteq> Inr wp"
  shows "get_nearest_supplier (E\<lparr>get_all := ga\<rparr>) w = get_nearest_supplier E w"
  using assms by (auto simp: get_nearest_supplier_def split: option.splits sum.splits)

text \<open>
  Claim C5. A supplier whose location does not yield a point (the text does not decode,
  the extractor raises, or there is no valid point) is skipped: the result is the one the
  function gives on the list without that supplier, wherever in the list the supplier is.
  When the extractor raised, the events are those of the run without the supplier plus
  one \<^verbatim>\<open>frappe.log_error\<close> naming the supplier and the error, at its place; when the
  extractor returned absent, nothing is logged.
\<close>

theorem bad_supplier_skipped:
  assumes "get_all E = Inr (xs @ b # ys)" and "\<not> yields_point (json_loads E) b"
  shows "snd (get_nearest_supplier E w) =
           snd (get_nearest_supplier (E\<lparr>get_all := Inr (xs @ ys)\<rparr>) w)
     \<and> (\<forall>w' wp. w = Some w' \<and> w' \<noteq> [] \<and> warehouse_coords E w' = Inr wp \<longrightarrow>
          (\<exists>evs1 evs2.
             fst (get_nearest_supplier E w) =
               evs1 @ (case get_coordinates_from_geojson (json_loads E) (custom_geolocation b)
                       of Inl e \<Rightarrow> [LogError supplier_error_title (name b) e]
                        | Inr r \<Rightarrow> []) @ evs2
             \<and> fst (get_nearest_supplier (E\<lparr>get_all := Inr (xs @ ys)\<rparr>) w) = evs1 @ evs2))"
proof -
  let ?E' = "E\<lparr>get_all := Inr (xs @ ys)\<rparr>"
  let ?gc = "get_coordinates_from_geojson (json_loads E) (custom_geolocation b)"
  have located: "snd (get_nearest_supplier E (Some w')) = snd (get_nearest_supplier ?E' (Some w'))
      \<and> (\<exists>evs1 evs2.
             fst (get_nearest_supplier E (Some w')) =
               evs1 @ (case ?gc of Inl e \<Rightarrow> [LogError supplier_error_title (name b) e]
                        | Inr r \<Rightarrow> []) @ evs2
             \<and> fst (get_nearest_supplier ?E' (Some w')) = evs1 @ evs2)"
    if w': "w' \<noteq> []" and wp: "warehouse_coords E w' = Inr wp" for w' wp
  proof (cases ?gc)
    case (Inl e)
    with assms(2) have body: "supplier_body (json_loads E) wp b initial_state = Inl e"
      by (simp add: supplier_body_no_point)
    from nearest_skip_raise [OF w' wp assms(1) body] Inl show ?thesis by simp
  next
    case (Inr r)
    with assms(2) have body: "\<And>st'. supplier_body (json_loads E) wp b st' = Inr st'"
      by (simp add: supplier_body_no_point)
    from nearest_skip_pass [OF w' wp assms(1) body] Inr show ?thesis
      by simp (metis append_Nil)
  qed
  have result: "snd (get_nearest_supplier E w) = snd (get_nearest_supplier ?E' w)"
  proof (cases "\<exists>w' wp. w = Some w' \<and> w' \<noteq> [] \<and> warehouse_coords E w' = Inr wp")
    case True
    with located show ?thesis by blast
  next
    case False
    then have "\<forall>w' wp. w = Some w' \<and> w' \<noteq> [] \<longrightarrow> warehouse_coords E w' \<noteq> Inr wp"
      by blast
    from nearest_unlocated_update [OF this] show ?thesis by simp
  qed
  from result located show ?thesis by blast
qed

theorem bad_supplier_skipped_witness:
  "\<not> yields_point sample_loads (sup ''A'' (Some txt_invalid))
   \<and> get_nearest_supplier
        (sample_env (Inr [sup ''A'' (Some txt_invalid), sup ''B'' (Some txt_antipode)]))
        (Some ''WH-1'') =
      ([GetValue ''WH-1'', GetAll, LogError supplier_error_title ''A'' JSONDecodeError],
       Inr (Some (NearestInfo ''B'' (Finite (6371 * pi)))))"
proof -
  let ?A = "sup ''A'' (Some txt_invalid)" and ?B = "sup ''B'' (Some txt_antipode)"
  let ?E = "sample_env (Inr [?A, ?B])"
  have y: "\<not> yields_point (json_loads ?E) ?A"
    by (simp add: yields_point_def sample_env_def sup_def sample_points)
  have ga: "get_all ?E = Inr ([] @ ?A # [?B])" by (simp add: sample_env_def)
  have less: "snd (get_nearest_supplier (?E\<lparr>get_all := Inr ([] @ [?B])\<rparr>) (Some ''WH-1'')) =
      Inr (Some (NearestInfo ''B'' (Finite (6371 * pi))))"
    using sample_warehouse [of "Inr [?B]"]
    by (simp add: get_nearest_supplier_def sample_env_def sample_bodies initial_state_def)
  have full: "fst (get_nearest_supplier ?E (Some ''WH-1'')) =
      [GetValue ''WH-1'', GetAll, LogError supplier_error_title ''A'' JSONDecodeError]"
    using sample_warehouse [of "Inr [?A, ?B]"]
    by (simp add: get_nearest_supplier_def sample_env_def sample_bodies initial_state_def)
      (simp add: sup_def)
  from bad_supplier_skipped [OF ga y, of "Some ''WH-1''"] less
  have "snd (get_nearest_supplier ?E (Some ''WH-1'')) =
      Inr (Some (NearestInfo ''B'' (Finite (6371 * pi))))"
    by simp
  with full y show ?thesis by (simp add: prod_eq_iff sample_env_def)
qed

text \<open>
  Claim C10. Once the suppliers are fetched the function returns a value: no exception
  raised inside the loop reaches the caller. A supplier for which the body of the loop
  raises, be it in the extractor or in \<open>haversine_distance\<close>, is logged with its name and
  the exception, and the result is the one of the run on the list without that supplier.
\<close>

theorem supplier_exception_caught:
  "(get_all E = Inr ss \<longrightarrow> (\<exists>r. snd (get_nearest_supplier E w) = Inr r))
   \<and> (w' \<noteq> [] \<and> warehouse_coords E w' = Inr wp \<and> get_all E = Inr (xs @ b # ys)
        \<and> supplier_body (json_loads E) wp b st = Inl e \<longrightarrow>
      snd (get_nearest_supplier E (Some w')) =
        snd (get_nearest_supplier (E\<lparr>get_all := Inr (xs @ ys)\<rparr>) (Some w'))
      \<and> (\<exists>evs1 evs2.
            fst (get_nearest_supplier E (Some w')) =
              evs1 @ [LogError supplier_error_title (name b) e] @ evs2
            \<and> fst (get_nearest_supplier (E\<lparr>get_all := Inr (xs @ ys)\<rparr>) (Some w')) =
              evs1 @ evs2))"
  using nearest_returns [of E ss w] nearest_skip_raise [of w' E wp xs b ys st e]
  by blast

theorem supplier_exception_caught_witness:
  "haversine_distance (PyInt 0) (PyInt 0) (PyFloat PosInf) (PyInt 0) = Inl math_domain_error
   \<and> get_nearest_supplier
        (sample_env (Inr [sup ''A'' (Some txt_infinite), sup ''B'' (Some txt_antipode)]))
        (Some ''WH-1'') =
      ([GetValue ''WH-1'', GetAll, LogError supplier_error_title ''A'' math_domain_error],
       Inr (Some (NearestInfo ''B'' (Finite (6371 * pi)))))"
proof -
  let ?A = "sup ''A'' (Some txt_infinite)" and ?B = "sup ''B'' (Some txt_antipode)"
  let ?E = "sample_env (Inr [?A, ?B])"
  have wp: "warehouse_coords ?E ''WH-1'' = Inr (PyInt 0, PyInt 0)"
    by (rule sample_warehouse)
  have ga: "get_all ?E = Inr ([] @ ?A # [?B])" by (simp add: sample_env_def)
  have body: "supplier_body (json_loads ?E) (PyInt 0, PyInt 0) ?A initial_state =
      Inl math_domain_error"
    by (simp add: sample_env_def sample_bodies)
  have less: "snd (get_nearest_supplier (?E\<lparr>get_all := Inr ([] @ [?B])\<rparr>) (Some ''WH-1'')) =
      Inr (Some (NearestInfo ''B'' (Finite (6371 * pi))))"
    using sample_warehouse [of "Inr [?B]"]
    by (simp add: get_nearest_supplier_def sample_env_def sample_bodies initial_state_def)
  have full: "fst (get_nearest_supplier ?E (Some ''WH-1'')) =
      [GetValue ''WH-1'', GetAll, LogError supplier_error_title ''A'' math_domain_error]"
    using sample_warehouse [of "Inr [?A, ?B]"]
    by (simp add: get_nearest_supplier_def sample_env_def sample_bodies initial_state_def)
      (simp add: sup_def)
  from supplier_exception_caught [of ?E _ _ "''WH-1''" "(PyInt 0, PyInt 0)" "[]" ?A "[?B]"
      initial_state math_domain_error] wp ga body less
  have "snd (get_nearest_supplier ?E (Some ''WH-1'')) =
      Inr (Some (NearestInfo ''B'' (Finite (6371 * pi))))"
    by simp
  with full sample_distances(3) show ?thesis by (simp add: prod_eq_iff)
qed

section \<open>The distance\<close>

subsection \<open>The formula on real numbers\<close>

lemma sin_half_diff_sq:
  fixes x y :: real
  shows "(sin ((x - y) / 2))\<^sup>2 = (sin ((y - x) / 2))\<^sup>2"
proof -
  have "(x - y) / 2 = - ((y - x) / 2)" by (simp add: field_simps)
  then have "sin ((x - y) / 2) = - sin ((y - x) / 2)" by (simp only: sin_minus)
  then show ?thesis by simp
qed

lemma sin_half_sq:
  fixes u :: real
  shows "(sin (u / 2))\<^sup>2 = (1 - cos u) / 2"
  using cos_double_sin [of "u / 2"] by simp

lemma haversine_term_bounds:
  fixes x y z :: real
  defines "a \<equiv> (sin ((y - x) / 2))\<^sup>2 + cos x * cos y * (sin (z / 2))\<^sup>2"
  shows "0 \<le> a" and "a \<le> 1"
proof -
  define s where "s = (sin (z / 2))\<^sup>2"
  define A0 where "A0 = (1 - cos (y - x)) / 2"
  define A1 where "A1 = (1 + cos (x + y)) / 2"
  have s: "0 \<le> s" "s \<le> 1"
    by (simp_all add: s_def abs_square_le_1)
  have half: "0 \<le> (1 - c) / 2 \<and> (1 - c) / 2 \<le> 1 \<and> 0 \<le> (1 + c) / 2 \<and> (1 + c) / 2 \<le> 1"
    if "- 1 \<le> c" "c \<le> 1" for c :: real
    using that by simp
  have A0: "0 \<le> A0" "A0 \<le> 1"
    unfolding A0_def using half [OF cos_ge_minus_one cos_le_one, of "y - x"] by blast+
  have A1: "0 \<le> A1" "A1 \<le> 1"
    unfolding A1_def using half [OF cos_ge_minus_one cos_le_one, of "x + y"] by blast+
  have h: "(sin ((y - x) / 2))\<^sup>2 = (1 - cos (y - x)) / 2"
    by (rule sin_half_sq)
  have "a = (1 - cos (y - x)) / 2 + cos x * cos y * s"
    unfolding a_def s_def h by (rule refl)
  also have "\<dots> = (1 - s) * A0 + s * A1"
    unfolding A0_def A1_def cos_diff cos_add by (simp add: field_simps)
  finally have a: "a = (1 - s) * A0 + s * A1" .
  from s A0 A1 have "0 \<le> (1 - s) * A0" "0 \<le> s * A1" by simp_all
  with a show "0 \<le> a" by simp
  from s A0 A1 have "(1 - s) * A0 + s * A1 \<le> 1"
    by (intro convex_bound_le) simp_all
  with a show "a \<le> 1" by simp
qed

subsection \<open>The formula on floats\<close>

lemma haversine_formula_finite:
  "haversine_formula (Finite x1) (Finite y1) (Finite x2) (Finite y2) =
     Inr (Finite (2 * arcsin (sqrt ((sin ((y2 * pi / 180 - y1 * pi / 180) / 2))\<^sup>2
        + cos (y1 * pi / 180) * cos (y2 * pi / 180)
          * (sin ((x2 * pi / 180 - x1 * pi / 180) / 2))\<^sup>2)) * 6371))"
proof -
  let ?a = "(sin ((y2 * pi / 180 - y1 * pi / 180) / 2))\<^sup>2
        + cos (y1 * pi / 180) * cos (y2 * pi / 180)
          * (sin ((x2 * pi / 180 - x1 * pi / 180) / 2))\<^sup>2"
  have a: "0 \<le> ?a" "?a \<le> 1" by (rule haversine_term_bounds)+
  then have q: "0 \<le> sqrt ?a" "sqrt ?a \<le> 1" by simp_all
  have "- 1 \<le> sqrt ?a" by (rule order_trans [OF _ q(1)]) simp
  with a q show ?thesis
    by (simp add: haversine_formula_def ebind_def Let_def)
qed

lemma haversine_formula_symmetric:
  "haversine_formula f1 f2 f3 f4 = haversine_formula f3 f4 f1 f2"
proof -
  show ?thesis
  proof (cases f1; cases f2; cases f3; cases f4)
    fix x1 y1 x2 y2
    assume f: "f1 = Finite x1" "f2 = Finite y1" "f3 = Finite x2" "f4 = Finite y2"
    have e1: "(sin ((y2 * pi / 180 - y1 * pi / 180) / 2))\<^sup>2
        = (sin ((y1 * pi / 180 - y2 * pi / 180) / 2))\<^sup>2"
      and e2: "(sin ((x2 * pi / 180 - x1 * pi / 180) / 2))\<^sup>2
        = (sin ((x1 * pi / 180 - x2 * pi / 180) / 2))\<^sup>2"
      by (rule sin_half_diff_sq)+
    have e3: "cos (y1 * pi / 180) * cos (y2 * pi / 180)
        = cos (y2 * pi / 180) * cos (y1 * pi / 180)"
      by (rule mult.commute)
    show ?thesis
      unfolding f haversine_formula_finite e1 e2 e3 by (rule refl)
  qed (simp_all add: haversine_formula_def ebind_def Let_def)
qed

lemma py_asin_kind: "py_asin q = Inr t \<Longrightarrow> t = NaN \<or> (\<exists>r. t = Finite r)"
  by (cases q) (auto split: if_splits)

lemma haversine_formula_kind:
  assumes "haversine_formula f1 f2 f3 f4 = Inr d"
  shows "d = NaN \<or> (\<exists>r. d = Finite r)"
proof -
  from assms obtain q t where "py_asin q = Inr t" and d: "d = fmul (fmul (Finite 2) t) (Finite 6371)"
    by (auto simp: haversine_formula_def ebind_def Let_def split: sum.splits)
  from py_asin_kind [OF this(1)] d show ?thesis by auto
qed

subsection \<open>The function\<close>

lemma py_float_error: "py_float x = Inl e \<Longrightarrow> e = OverflowError"
  by (cases x) (auto split: if_splits)

lemma py_float_finite: "finite_input x \<Longrightarrow> \<exists>r. py_float x = Inr (Finite r)"
  by (cases x rule: finite_input.cases) simp_all

lemma haversine_distance_swap:
  "haversine_distance lon1 lat1 lon2 lat2 = haversine_distance lon2 lat2 lon1 lat1"
proof -
  have e: "\<And>x e. py_float x = Inl e \<Longrightarrow> py_float x = Inl OverflowError"
    by (auto dest: py_float_error)
  show ?thesis
    by (cases "py_float lon1"; cases "py_float lat1"; cases "py_float lon2";
        cases "py_float lat2")
      (auto simp: haversine_distance_def ebind_def haversine_formula_symmetric
        dest!: py_float_error)
qed

lemma haversine_distance_kind:
  "haversine_distance lon1 lat1 lon2 lat2 = Inr d \<Longrightarrow> d = NaN \<or> (\<exists>r. d = Finite r)"
  by (auto simp: haversine_distance_def ebind_def split: sum.splits
      dest: haversine_formula_kind)

lemma haversine_distance_same:
  assumes "finite_input lon" "finite_input lat"
  shows "haversine_distance lon lat lon lat = Inr (Finite 0)"
proof -
  from assms obtain x y where "py_float lon = Inr (Finite x)" "py_float lat = Inr (Finite y)"
    by (blast dest: py_float_finite)
  then show ?thesis
    by (simp add: haversine_distance_def ebind_def haversine_formula_finite)
qed

text \<open>
  Claim C8, as amended. \<open>haversine_distance\<close> is symmetric for all numeric inputs: with
  the two points exchanged it returns the same value, or raises the same exception. For
  two identical points whose coordinates \<^verbatim>\<open>float\<close> converts to finite floats (finite
  floats, booleans, and integers below \<open>2^1024 - 2^970\<close> in absolute value) it returns 0.
  Float arithmetic is read as exact real arithmetic.
\<close>

theorem haversine_symmetric_zero_on_finite:
  "haversine_distance lon1 lat1 lon2 lat2 = haversine_distance lon2 lat2 lon1 lat1
   \<and> (finite_input lon \<and> finite_input lat \<longrightarrow>
        haversine_distance lon lat lon lat = Inr (Finite 0))"
  using haversine_distance_swap [of lon1 lat1 lon2 lat2] haversine_distance_same [of lon lat]
  by blast

theorem haversine_symmetric_zero_on_finite_witness:
  "finite_input (PyFloat (Finite 2.5)) \<and> finite_input (PyInt 48)
   \<and> haversine_distance (PyFloat (Finite 2.5)) (PyInt 48) (PyFloat (Finite 2.5)) (PyInt 48)
       = Inr (Finite 0)
   \<and> haversine_distance (PyInt 180) (PyInt 0) (PyInt 0) (PyInt 0) = Inr (Finite (6371 * pi))"
proof -
  have f: "finite_input (PyFloat (Finite 2.5))" "finite_input (PyInt 48)"
    by (simp_all add: float_overflow_bound_def)
  from haversine_symmetric_zero_on_finite [of "PyInt 180" "PyInt 0" "PyInt 0" "PyInt 0"
      "PyFloat (Finite 2.5)" "PyInt 48"] f sample_distances(2)
  show ?thesis by simp
qed

text \<open>
  Claim C8 as stated fails on identical points outside that range: with the integer
  \<open>10^400\<close> as longitude \<^verbatim>\<open>float\<close> raises \<open>OverflowError\<close>, and with \<^verbatim>\<open>nan\<close> as
  longitude the result is \<^verbatim>\<open>nan\<close>, not 0.
\<close>

theorem haversine_identical_not_zero_counterexample:
  "haversine_distance (PyInt (10 ^ 400)) (PyInt 0) (PyInt (10 ^ 400)) (PyInt 0)
     = Inl OverflowError
   \<and> haversine_distance (PyFloat NaN) (PyInt 0) (PyFloat NaN) (PyInt 0) = Inr NaN"
  by (simp add: haversine_distance_def haversine_formula_def ebind_def
      float_overflow_bound_def)










section \<open>The minimum\<close>

lemma candidates_Cons:
  "candidates loads wp (s # ss) =
     (case computed_distance loads wp s of None \<Rightarrow> [] | Some d \<Rightarrow> [(name s, d)])
       @ candidates loads wp ss"
  by (simp add: candidates_def split: option.splits)

lemma tracks_step:
  assumes "tracks cs st"
  shows "tracks (cs @ [(n', m')])
     (if flt (Finite m') (min_distance st)
      then \<lparr>nearest_supplier_info = Some (NearestInfo n' (Finite m')),
            min_distance = Finite m'\<rparr>
      else st)"
proof (cases "cs = []")
  case True
  with assms have "st = initial_state" by (auto simp: tracks_def)
  moreover have "[(n', m')] = [] @ (n', m') # [] \<and> (\<forall>c\<in>set []. m' < snd c)
      \<and> (\<forall>c\<in>set []. m' \<le> snd c)"
    by simp
  then have "tracks [(n', m')]
      \<lparr>nearest_supplier_info = Some (NearestInfo n' (Finite m')), min_distance = Finite m'\<rparr>"
    unfolding tracks_def by blast
  ultimately show ?thesis using True
    by (simp add: initial_state_def)
next
  case False
  with assms obtain before n m after where
    cs: "cs = before @ (n, m) # after"
    and st: "st = \<lparr>nearest_supplier_info = Some (NearestInfo n (Finite m)),
                   min_distance = Finite m\<rparr>"
    and b: "\<forall>c\<in>set before. m < snd c" and a: "\<forall>c\<in>set after. m \<le> snd c"
    by (auto simp: tracks_def)
  show ?thesis
  proof (cases "m' < m")
    case True
    have "m' < snd c" if "c \<in> set cs" for c
    proof -
      from that consider "c \<in> set before" | "c = (n, m)" | "c \<in> set after"
        unfolding cs by auto
      then show ?thesis
      proof cases
        case 1
        with b have "m < snd c" by blast
        with True show ?thesis by (rule less_trans)
      next
        case 2
        with True show ?thesis by simp
      next
        case 3
        with a have "m \<le> snd c" by blast
        with True show ?thesis by (rule less_le_trans)
      qed
    qed
    then have "\<forall>c\<in>set cs. m' < snd c" by blast
    then have "cs @ [(n', m')] = cs @ (n', m') # [] \<and> (\<forall>c\<in>set cs. m' < snd c)
        \<and> (\<forall>c\<in>set []. m' \<le> snd c)"
      by simp
    then have "tracks (cs @ [(n', m')])
        \<lparr>nearest_supplier_info = Some (NearestInfo n' (Finite m')), min_distance = Finite m'\<rparr>"
      unfolding tracks_def by blast
    with True st show ?thesis by simp
  next
    case False
    with a have "\<forall>c\<in>set (after @ [(n', m')]). m \<le> snd c" by auto
    with b have "cs @ [(n', m')] = before @ (n, m) # (after @ [(n', m')])
        \<and> (\<forall>c\<in>set before. m < snd c) \<and> (\<forall>c\<in>set (after @ [(n', m')]). m \<le> snd c)"
      by (simp add: cs)
    then have "tracks (cs @ [(n', m')]) st"
      unfolding tracks_def st by blast
    with False st show ?thesis by simp
  qed
qed

lemma supplier_body_tracks:
  assumes "tracks cs st"
  shows "case supplier_body loads wp s st of
           Inl e \<Rightarrow> computed_distance loads wp s = None
         | Inr st' \<Rightarrow>
             tracks (cs @ (case computed_distance loads wp s of
                             None \<Rightarrow> [] | Some d \<Rightarrow> [(name s, d)])) st'"
proof (cases "get_coordinates_from_geojson loads (custom_geolocation s)")
  case (Inl e)
  then show ?thesis by (simp add: supplier_body_def computed_distance_def ebind_def)
next
  case (Inr r)
  show ?thesis
  proof (cases r)
    case None
    with Inr assms show ?thesis
      by (simp add: supplier_body_def computed_distance_def ebind_def)
  next
    case (Some p)
    obtain lon2 lat2 where p: "p = (lon2, lat2)" by (cases p)
    show ?thesis
    proof (cases "haversine_distance (fst wp) (snd wp) lon2 lat2")
      case (Inl e)
      with Inr Some p show ?thesis
        by (simp add: supplier_body_def computed_distance_def ebind_def)
    next
      case hav: (Inr d)
      from haversine_distance_kind [OF hav] show ?thesis
      proof
        assume "d = NaN"
        with Inr Some p hav assms show ?thesis
          by (simp add: supplier_body_def computed_distance_def ebind_def)
      next
        assume "\<exists>m. d = Finite m"
        then obtain m where "d = Finite m" ..
        with Inr Some p hav tracks_step [OF assms, of "name s" m] show ?thesis
          by (simp add: supplier_body_def computed_distance_def ebind_def split: if_splits)
      qed
    qed
  qed
qed

lemma scan_suppliers_tracks:
  "tracks cs st \<Longrightarrow>
     tracks (cs @ candidates loads wp ss) (snd (scan_suppliers loads wp ss (evs, st)))"
proof (induction ss arbitrary: cs st evs)
  case Nil
  then show ?case by (simp add: candidates_def)
next
  case (Cons s ss)
  show ?case
  proof (cases "supplier_body loads wp s st")
    case (Inl e)
    with supplier_body_tracks [OF Cons.prems, of loads wp s]
    have "computed_distance loads wp s = None" by simp
    with Inl Cons.IH [OF Cons.prems] show ?thesis by (simp add: candidates_Cons)
  next
    case (Inr st')
    with supplier_body_tracks [OF Cons.prems, of loads wp s]
    have "tracks (cs @ (case computed_distance loads wp s of
        None \<Rightarrow> [] | Some d \<Rightarrow> [(name s, d)])) st'"
      by simp
    from Cons.IH [OF this] Inr show ?thesis by (simp add: candidates_Cons)
  qed
qed

lemma tracks_first_nearest:
  assumes "tracks cs st"
  shows "is_first_nearest cs (nearest_supplier_info st)"
proof (cases "cs = []")
  case True
  with assms show ?thesis
    by (auto simp: tracks_def is_first_nearest_def initial_state_def)
next
  case False
  with assms obtain before n m after where
    cs: "cs = before @ (n, m) # after"
    and st: "st = \<lparr>nearest_supplier_info = Some (NearestInfo n (Finite m)),
                   min_distance = Finite m\<rparr>"
    and b: "\<forall>c\<in>set before. m < snd c" and a: "\<forall>c\<in>set after. m \<le> snd c"
    by (auto simp: tracks_def)
  then have "\<exists>before' m' after'. cs = before' @ (n, m') # after' \<and> Finite m = Finite m'
      \<and> (\<forall>c\<in>set before'. m' < snd c) \<and> (\<forall>c\<in>set after'. m' \<le> snd c)"
    by blast
  with st show ?thesis by (simp add: is_first_nearest_def)
qed

lemma candidates_no_point:
  "\<forall>s\<in>set ss. \<not> yields_point loads s \<Longrightarrow> candidates loads wp ss = []"
proof (induction ss)
  case Nil
  show ?case by (simp add: candidates_def)
next
  case (Cons s ss)
  then show ?case
    by (auto simp: candidates_Cons computed_distance_def yields_point_def
        split: sum.splits option.splits)
qed

text \<open>
  Claim C1. For a warehouse whose location yields a valid point and for every list of
  suppliers, \<open>get_nearest_supplier\<close> returns a value, which is the first supplier, in
  the order of the list, at the minimum of the distances computed (those of the suppliers
  whose location yields a point and whose distance to the warehouse is a number): every
  such supplier before it is strictly farther, and none after it is nearer, so that at
  equal distance the first one wins. It returns absent when there is no such supplier,
  in particular when no supplier yields a valid point.
\<close>

theorem nearest_is_first_minimum:
  "w \<noteq> [] \<and> warehouse_coords E w = Inr wp \<and> get_all E = Inr ss \<longrightarrow>
     (\<exists>r. snd (get_nearest_supplier E (Some w)) = Inr r
        \<and> is_first_nearest (candidates (json_loads E) wp ss) r
        \<and> ((\<forall>s\<in>set ss. \<not> yields_point (json_loads E) s) \<longrightarrow> r = None))"
proof
  assume a: "w \<noteq> [] \<and> warehouse_coords E w = Inr wp \<and> get_all E = Inr ss"
  let ?st = "snd (scan_suppliers (json_loads E) wp ss ([], initial_state))"
  have "tracks [] initial_state" by (simp add: tracks_def)
  from scan_suppliers_tracks [OF this, of "json_loads E" wp ss "[]"]
  have t: "tracks (candidates (json_loads E) wp ss) ?st" by simp
  then have n: "is_first_nearest (candidates (json_loads E) wp ss) (nearest_supplier_info ?st)"
    by (rule tracks_first_nearest)
  have e: "nearest_supplier_info ?st = None"
    if "\<forall>s\<in>set ss. \<not> yields_point (json_loads E) s"
    using n candidates_no_point [OF that, of wp]
    by (auto simp: is_first_nearest_def split: option.splits nearest.splits)
  from a have "snd (get_nearest_supplier E (Some w)) = Inr (nearest_supplier_info ?st)"
    by (simp add: nearest_located [of w E wp ss])
  with n e show "\<exists>r. snd (get_nearest_supplier E (Some w)) = Inr r
        \<and> is_first_nearest (candidates (json_loads E) wp ss) r
        \<and> ((\<forall>s\<in>set ss. \<not> yields_point (json_loads E) s) \<longrightarrow> r = None)"
    by blast
qed

theorem nearest_is_first_minimum_witness:
  "snd (get_nearest_supplier
          (sample_env (Inr [sup ''A'' (Some txt_antipode), sup ''B'' (Some txt_origin),
                            sup ''C'' (Some txt_origin), sup ''D'' None]))
          (Some ''WH-1'')) = Inr (Some (NearestInfo ''B'' (Finite 0)))
   \<and> is_first_nearest [(''A'', 6371 * pi), (''B'', 0), (''C'', 0)]
        (Some (NearestInfo ''B'' (Finite 0)))"
proof -
  let ?ss = "[sup ''A'' (Some txt_antipode), sup ''B'' (Some txt_origin),
              sup ''C'' (Some txt_origin), sup ''D'' None]"
  let ?E = "sample_env (Inr ?ss)"
  have wp: "warehouse_coords ?E ''WH-1'' = Inr (PyInt 0, PyInt 0)"
    by (rule sample_warehouse)
  have r: "snd (get_nearest_supplier ?E (Some ''WH-1'')) =
      Inr (Some (NearestInfo ''B'' (Finite 0)))"
    using wp
    by (simp add: get_nearest_supplier_def sample_env_def sample_bodies initial_state_def)
  have c: "candidates (json_loads ?E) (PyInt 0, PyInt 0) ?ss =
      [(''A'', 6371 * pi), (''B'', 0), (''C'', 0)]"
    by (simp add: candidates_def computed_distance_def sample_env_def sup_def sample_points
        sample_distances)
  from nearest_is_first_minimum [of "''WH-1''" ?E "(PyInt 0, PyInt 0)" ?ss] wp r
  have "is_first_nearest (candidates (json_loads ?E) (PyInt 0, PyInt 0) ?ss)
      (Some (NearestInfo ''B'' (Finite 0)))"
    by (simp add: sample_env_def)
  with c r show ?thesis by simp
qed

end
